theory Spec2Isabelle
  imports Complex_Main "HOL-Library.AList"
begin

section \<open>Numbers of the program\<close>

text \<open>
  The program computes with Python and numpy double-precision numbers. They are modelled
  as the exact real value of a finite number, or one of the three special values. Rounding,
  overflow of finite arithmetic and the sign of zero are not modelled: a finite operation
  returns the exact real result. What the special values do is written out, since the
  program can reach them (a text cell \<open>inf\<close>, a division by zero in numpy).
\<close>

datatype pyfloat = Fin real | PInf | NInf | NaN

datatype exn = KeyError | IndexError | ValueError | ZeroDivisionError | TypeError

fun fneg :: "pyfloat \<Rightarrow> pyfloat" where
  "fneg (Fin a) = Fin (- a)"
| "fneg PInf = NInf"
| "fneg NInf = PInf"
| "fneg NaN = NaN"

fun fadd :: "pyfloat \<Rightarrow> pyfloat \<Rightarrow> pyfloat" where
  "fadd (Fin a) (Fin b) = Fin (a + b)"
| "fadd NaN _ = NaN"
| "fadd _ NaN = NaN"
| "fadd PInf NInf = NaN"
| "fadd NInf PInf = NaN"
| "fadd PInf _ = PInf"
| "fadd NInf _ = NInf"
| "fadd _ PInf = PInf"
| "fadd _ NInf = NInf"

definition fsub :: "pyfloat \<Rightarrow> pyfloat \<Rightarrow> pyfloat" where
  "fsub a b = fadd a (fneg b)"

text \<open>The sign of a number that is not NaN: \<open>1\<close>, \<open>0\<close> or \<open>-1\<close>.\<close>

fun fsgn :: "pyfloat \<Rightarrow> int" where
  "fsgn (Fin a) = (if 0 < a then 1 else if a < 0 then - 1 else 0)"
| "fsgn PInf = 1"
| "fsgn NInf = - 1"
| "fsgn NaN = 0"

definition inf_of_sign :: "int \<Rightarrow> pyfloat" where
  "inf_of_sign s = (if 0 < s then PInf else if s < 0 then NInf else NaN)"

fun fmul :: "pyfloat \<Rightarrow> pyfloat \<Rightarrow> pyfloat" where
  "fmul (Fin a) (Fin b) = Fin (a * b)"
| "fmul NaN _ = NaN"
| "fmul _ NaN = NaN"
| "fmul a b = inf_of_sign (fsgn a * fsgn b)"

text \<open>
  Division as numpy does it: a zero divisor gives an infinity with the sign of the
  dividend, or NaN for \<open>0 / 0\<close>; nothing is raised.
\<close>

fun fdiv :: "pyfloat \<Rightarrow> pyfloat \<Rightarrow> pyfloat" where
  "fdiv (Fin a) (Fin b) = (if b = 0 then inf_of_sign (fsgn (Fin a)) else Fin (a / b))"
| "fdiv NaN _ = NaN"
| "fdiv _ NaN = NaN"
| "fdiv (Fin a) _ = Fin 0"
| "fdiv a (Fin b) = inf_of_sign (fsgn a * (if b < 0 then - 1 else 1))"
| "fdiv _ _ = NaN"

text \<open>Division of Python floats: a zero divisor raises.\<close>

definition py_truediv :: "pyfloat \<Rightarrow> pyfloat \<Rightarrow> exn + pyfloat" where
  "py_truediv a b = (if b = Fin 0 then Inl ZeroDivisionError else Inr (fdiv a b))"

text \<open>\<open>a ** n\<close> for a positive integer \<open>n\<close>.\<close>

fun fpow :: "pyfloat \<Rightarrow> nat \<Rightarrow> pyfloat" where
  "fpow (Fin a) n = Fin (a ^ n)"
| "fpow PInf n = PInf"
| "fpow NInf n = (if even n then PInf else NInf)"
| "fpow NaN n = NaN"

text \<open>\<open>a > b\<close>: false as soon as one side is NaN.\<close>

fun fgt :: "pyfloat \<Rightarrow> pyfloat \<Rightarrow> bool" where
  "fgt (Fin a) (Fin b) = (b < a)"
| "fgt NaN _ = False"
| "fgt _ NaN = False"
| "fgt PInf b = (b \<noteq> PInf)"
| "fgt NInf _ = False"
| "fgt (Fin a) PInf = False"
| "fgt (Fin a) NInf = True"

section \<open>Text of a cell\<close>

text \<open>
  Strings are lists of 8-bit characters (Latin-1). \<open>is_space\<close> is Python's
  \<open>str.isspace\<close> on that range: tab to carriage return, the four separators, the
  space, next line and the no-break space.
\<close>

definition is_space :: "char \<Rightarrow> bool" where
  "is_space c =
     (c \<in> set [CHR 0x09, CHR 0x0A, CHR 0x0B, CHR 0x0C, CHR 0x0D, CHR 0x1C, CHR 0x1D,
                CHR 0x1E, CHR 0x1F, CHR 0x20, CHR 0x85, CHR 0xA0])"

definition strip :: "string \<Rightarrow> string" where
  "strip s = rev (dropWhile is_space (rev (dropWhile is_space s)))"

definition remove_char :: "char \<Rightarrow> string \<Rightarrow> string" where
  "remove_char c s = filter (\<lambda>x. x \<noteq> c) s"

definition endswith :: "string \<Rightarrow> char \<Rightarrow> bool" where
  "endswith s c = (s \<noteq> [] \<and> last s = c)"

definition is_digit :: "char \<Rightarrow> bool" where
  "is_digit c = (c \<in> set ''0123456789'')"

text \<open>The value of a digit: its place among the ten digits.\<close>

definition digit_val :: "char \<Rightarrow> nat" where
  "digit_val c = length (takeWhile (\<lambda>d. d \<noteq> c) ''0123456789'')"

definition digits_val :: "string \<Rightarrow> nat" where
  "digits_val ds = foldl (\<lambda>acc c. 10 * acc + digit_val c) 0 ds"

text \<open>The same value as a real number, for the digits of the mantissa.\<close>

definition mantissa :: "string \<Rightarrow> real" where
  "mantissa ds = foldl (\<lambda>acc c. 10 * acc + real (digit_val c)) 0 ds"

definition ascii_lower :: "char \<Rightarrow> char" where
  "ascii_lower c =
     (case map_of (zip ''ABCDEFGHIJKLMNOPQRSTUVWXYZ'' ''abcdefghijklmnopqrstuvwxyz'') c of
        None \<Rightarrow> c
      | Some l \<Rightarrow> l)"

subsection \<open>Python's \<open>float\<close> on a string\<close>

text \<open>
  Underscores may only stand between two digits; \<open>prev\<close> is the character before.
\<close>

fun underscores_ok :: "char \<Rightarrow> string \<Rightarrow> bool" where
  "underscores_ok prev [] = (prev \<noteq> CHR ''_'')"
| "underscores_ok prev (c # cs) =
     (if c = CHR ''_'' then is_digit prev \<and> underscores_ok c cs
      else (if prev = CHR ''_'' then is_digit c else True) \<and> underscores_ok c cs)"

text \<open>An optional sign: the flag says whether it was a minus.\<close>

fun take_sign :: "string \<Rightarrow> bool \<times> string" where
  "take_sign [] = (False, [])"
| "take_sign (c # cs) =
     (if c = CHR ''-'' then (True, cs)
      else if c = CHR ''+'' then (False, cs)
      else (False, c # cs))"

text \<open>
  The exponent part: nothing, or \<open>e\<close> or \<open>E\<close>, an optional sign and at least one
  digit, up to the end of the string. The result is the factor it stands for.
\<close>

definition exponent_factor :: "string \<Rightarrow> real option" where
  "exponent_factor s =
     (case s of
        [] \<Rightarrow> Some 1
      | c # cs \<Rightarrow>
          if c = CHR ''e'' \<or> c = CHR ''E'' then
            (let (neg, ds) = take_sign cs in
             if ds \<noteq> [] \<and> list_all is_digit ds
             then Some (if neg then 1 / 10 ^ digits_val ds else 10 ^ digits_val ds)
             else None)
          else None)"

text \<open>
  An unsigned decimal number: digits, an optional point, digits (at least one digit in
  all), then the exponent part.
\<close>

definition decimal_value :: "string \<Rightarrow> real option" where
  "decimal_value s =
     (let ip = takeWhile is_digit s;
          r1 = dropWhile is_digit s;
          (fp, r2) =
            (case r1 of
               [] \<Rightarrow> ([], [])
             | c # cs \<Rightarrow>
                 if c = CHR ''.'' then (takeWhile is_digit cs, dropWhile is_digit cs)
                 else ([], r1))
      in if ip = [] \<and> fp = [] then None
         else (case exponent_factor r2 of
                 None \<Rightarrow> None
               | Some f \<Rightarrow> Some (mantissa (ip @ fp) * f / 10 ^ length fp)))"

definition float_of_string :: "string \<Rightarrow> pyfloat option" where
  "float_of_string s0 =
     (let s = strip s0 in
      if \<not> underscores_ok (CHR 0x00) s then None
      else
        (let (neg, body) = take_sign (remove_char (CHR ''_'') s);
             low = map ascii_lower body
         in if low = ''inf'' \<or> low = ''infinity'' then Some (if neg then NInf else PInf)
            else if low = ''nan'' then Some NaN
            else (case decimal_value body of
                    None \<Rightarrow> None
                  | Some v \<Rightarrow> Some (Fin (if neg then - v else v)))))"

section \<open>Scalar normalizer\<close>

text \<open>
  A cell as pandas hands it over: blank (NaN), a number, or text.
\<close>

datatype cell = Blank | Num real | Str string

text \<open>
  The last two statements of \<open>clean_and_convert\<close>: the percentage rule.
\<close>

definition percent_rule :: "bool \<Rightarrow> pyfloat \<Rightarrow> pyfloat" where
  "percent_rule is_percentage numeric_value =
     (if is_percentage \<and> fgt numeric_value (Fin 1)
      then fdiv numeric_value (Fin 100)
      else numeric_value)"

definition clean_and_convert :: "cell \<Rightarrow> bool \<Rightarrow> pyfloat" where
  "clean_and_convert v is_percentage =
     (case v of
        Blank \<Rightarrow> Fin 0
      | Num r \<Rightarrow> percent_rule is_percentage (Fin r)
      | Str s \<Rightarrow>
          if s = [] then Fin 0
          else
            (let value_str = strip (remove_char (CHR '','') (remove_char (CHR ''$'') s));
                 pct = endswith value_str (CHR ''%'');
                 value_str2 = (if pct then remove_char (CHR ''%'') value_str else value_str)
             in case float_of_string value_str2 of
                  None \<Rightarrow> Fin 0
                | Some numeric_value \<Rightarrow> percent_rule (is_percentage \<or> pct) numeric_value))"

section \<open>Workbook loader\<close>

text \<open>
  A sheet is the list of its rows. The reader pads every row with blank cells to the
  width of the widest one. A workbook maps the names of its sheets to them.
\<close>

type_synonym grid = "cell list list"

type_synonym workbook = "string \<rightharpoonup> grid"

definition width :: "grid \<Rightarrow> nat" where
  "width g = fold (\<lambda>r w. max (length r) w) g 0"

definition rectangular :: "grid \<Rightarrow> grid" where
  "rectangular g = map (\<lambda>r. r @ replicate (width g - length r) Blank) g"

definition ebind :: "exn + 'a \<Rightarrow> ('a \<Rightarrow> exn + 'b) \<Rightarrow> exn + 'b" where
  "ebind m f = (case m of Inl e \<Rightarrow> Inl e | Inr v \<Rightarrow> f v)"

text \<open>\<open>xl.parse(sheet_name=...)\<close>: a sheet that is not there raises.\<close>

definition parse_sheet :: "workbook \<Rightarrow> string \<Rightarrow> exn + grid" where
  "parse_sheet xl name = (case xl name of None \<Rightarrow> Inl ValueError | Some g \<Rightarrow> Inr (rectangular g))"

subsection \<open>The assumptions sheet, looked up by label\<close>

text \<open>
  \<open>str.lower\<close> on Latin-1: the letters A to Z, and the accented capitals 0xC0 to 0xDE
  but the multiplication sign 0xD7, move to the character 0x20 further.
\<close>

definition latin1_upper :: string where
  "latin1_upper =
     [CHR 0xC0, CHR 0xC1, CHR 0xC2, CHR 0xC3, CHR 0xC4, CHR 0xC5, CHR 0xC6, CHR 0xC7,
      CHR 0xC8, CHR 0xC9, CHR 0xCA, CHR 0xCB, CHR 0xCC, CHR 0xCD, CHR 0xCE, CHR 0xCF,
      CHR 0xD0, CHR 0xD1, CHR 0xD2, CHR 0xD3, CHR 0xD4, CHR 0xD5, CHR 0xD6,
      CHR 0xD8, CHR 0xD9, CHR 0xDA, CHR 0xDB, CHR 0xDC, CHR 0xDD, CHR 0xDE]"

definition latin1_lower :: string where
  "latin1_lower =
     [CHR 0xE0, CHR 0xE1, CHR 0xE2, CHR 0xE3, CHR 0xE4, CHR 0xE5, CHR 0xE6, CHR 0xE7,
      CHR 0xE8, CHR 0xE9, CHR 0xEA, CHR 0xEB, CHR 0xEC, CHR 0xED, CHR 0xEE, CHR 0xEF,
      CHR 0xF0, CHR 0xF1, CHR 0xF2, CHR 0xF3, CHR 0xF4, CHR 0xF5, CHR 0xF6,
      CHR 0xF8, CHR 0xF9, CHR 0xFA, CHR 0xFB, CHR 0xFC, CHR 0xFD, CHR 0xFE]"

definition py_lower :: "char \<Rightarrow> char" where
  "py_lower c =
     (case map_of (zip (''ABCDEFGHIJKLMNOPQRSTUVWXYZ'' @ latin1_upper)
                       (''abcdefghijklmnopqrstuvwxyz'' @ latin1_lower)) c of
        None \<Rightarrow> c
      | Some l \<Rightarrow> l)"

text \<open>
  The index after \<open>fillna('')\<close>, \<open>strip\<close>, \<open>lower\<close> and the replacement of spaces. A
  numeric label becomes the decimal text of the number, which is none of the labels the
  loader looks up: it is \<open>None\<close> here.
\<close>

definition normalize_label :: "cell \<Rightarrow> string option" where
  "normalize_label c =
     (case c of
        Blank \<Rightarrow> Some []
      | Num r \<Rightarrow> None
      | Str s \<Rightarrow> Some (map (\<lambda>x. if x = CHR '' '' then CHR ''_'' else x) (map py_lower (strip s))))"

type_synonym base_frame = "(string option \<times> cell list) list"

text \<open>\<open>header=None, index_col=0\<close>: the first cell of a row is its label.\<close>

definition index_col0 :: "grid \<Rightarrow> base_frame" where
  "index_col0 g = map (\<lambda>r. (normalize_label (hd r), tl r)) (filter (\<lambda>r. r \<noteq> []) g)"

text \<open>
  \<open>df_base.loc[clean_label].iloc[0]\<close> and its conversion. No row with the label raises
  KeyError; a row without a data column raises IndexError; with several rows of that
  label \<open>.iloc[0]\<close> is a whole row, on which the blank test of the normalizer raises
  ValueError.
\<close>

definition get_base_value :: "base_frame \<Rightarrow> string \<Rightarrow> bool \<Rightarrow> exn + pyfloat" where
  "get_base_value df_base clean_label is_percentage =
     (case filter (\<lambda>r. fst r = Some clean_label) df_base of
        [] \<Rightarrow> Inl KeyError
      | [r] \<Rightarrow> (case snd r of
                 [] \<Rightarrow> Inl IndexError
               | v # _ \<Rightarrow> Inr (clean_and_convert v is_percentage))
      | _ # _ # _ \<Rightarrow> Inl ValueError)"

record base_vars =
  Ingresos_Totales_2025 :: pyfloat
  Gastos_Fijos_Operativos_2025 :: pyfloat
  Dias_CxC :: pyfloat
  Dias_Inv :: pyfloat
  Dias_CxP :: pyfloat
  WACC :: pyfloat
  G_Perpetuidad :: pyfloat
  Tasa_ISR :: pyfloat
  Dep_Pct_Base :: pyfloat
  CapEx_Pct_Base :: pyfloat

definition load_base_vars :: "base_frame \<Rightarrow> exn + base_vars" where
  "load_base_vars df =
     ebind (get_base_value df ''ingresos_totales_2025'' False) (\<lambda>v1.
     ebind (get_base_value df ''gastos_fijos_operativos_2025'' False) (\<lambda>v2.
     ebind (get_base_value df ''dias_cxc'' False) (\<lambda>v3.
     ebind (get_base_value df ''dias_inv'' False) (\<lambda>v4.
     ebind (get_base_value df ''dias_cxp'' False) (\<lambda>v5.
     ebind (get_base_value df ''wacc'' True) (\<lambda>v6.
     ebind (get_base_value df ''g-tasa_de_crecimiento_a_perpetuidad'' True) (\<lambda>v7.
     ebind (get_base_value df ''tasa_isr'' True) (\<lambda>v8.
     ebind (get_base_value df ''dep_pct_base'' True) (\<lambda>v9.
     ebind (get_base_value df ''capex_pct_base'' True) (\<lambda>v10.
     Inr \<lparr>Ingresos_Totales_2025 = v1, Gastos_Fijos_Operativos_2025 = v2,
          Dias_CxC = v3, Dias_Inv = v4, Dias_CxP = v5, WACC = v6, G_Perpetuidad = v7,
          Tasa_ISR = v8, Dep_Pct_Base = v9, CapEx_Pct_Base = v10\<rparr>))))))))))"

subsection \<open>The two positional sheets\<close>

text \<open>
  \<open>header=0\<close>, then \<open>set_index(columns[0])\<close>: the first row names the columns, the first
  column becomes the index, and what is left is the table read by position. A sheet
  without a column has no \<open>columns[0]\<close>.
\<close>

definition parse_proyecciones :: "grid \<Rightarrow> exn + grid" where
  "parse_proyecciones g =
     (case g of
        [] \<Rightarrow> Inl IndexError
      | h # body \<Rightarrow> if h = [] then Inl IndexError else Inr (map tl body))"

definition row_at :: "grid \<Rightarrow> nat \<Rightarrow> exn + cell list" where
  "row_at g i = (if i < length g then Inr (g ! i) else Inl IndexError)"

text \<open>\<open>[clean_and_convert(val) for val in row.values[3:8]]\<close>\<close>

definition project_values :: "cell list \<Rightarrow> pyfloat list" where
  "project_values r = map (\<lambda>v. clean_and_convert v False) (take 5 (drop 3 r))"

record project_data =
  capex_inversion :: "pyfloat list"
  ingresos_adicionales :: "pyfloat list"
  gastos_ahorros_operativos :: "pyfloat list"
  depreciacion_adicional :: "pyfloat list"

definition load_project_data :: "grid \<Rightarrow> exn + project_data" where
  "load_project_data impacto_proyectos =
     ebind (row_at impacto_proyectos 0) (\<lambda>r0.
     ebind (row_at impacto_proyectos 4) (\<lambda>r4.
     ebind (row_at impacto_proyectos 8) (\<lambda>r8.
     ebind (row_at impacto_proyectos 12) (\<lambda>r12.
     Inr \<lparr>capex_inversion = project_values r0,
          ingresos_adicionales = project_values r4,
          gastos_ahorros_operativos = project_values r8,
          depreciacion_adicional = project_values r12\<rparr>))))"

record data =
  base :: base_vars
  proyecciones :: grid
  proyectos :: project_data

text \<open>The body of the \<open>try\<close> block of \<open>_load_data\<close>, once the workbook is open.\<close>

definition load_data_try :: "workbook \<Rightarrow> exn + data" where
  "load_data_try xl =
     ebind (parse_sheet xl ''Hipotesis_Base'') (\<lambda>g_base.
     ebind (load_base_vars (index_col0 g_base)) (\<lambda>base_vars.
     ebind (parse_sheet xl ''Proyecciones_Detalladas'') (\<lambda>g_proy.
     ebind (parse_proyecciones g_proy) (\<lambda>proyecciones_detalladas.
     ebind (parse_sheet xl ''Impacto_Proyectos'') (\<lambda>g_imp.
     ebind (load_project_data (drop 2 g_imp)) (\<lambda>project_data.
     Inr \<lparr>base = base_vars, proyecciones = proyecciones_detalladas,
          proyectos = project_data\<rparr>))))))"

text \<open>
  \<open>_load_data\<close>. The source is \<open>None\<close> for a path that does not exist or a file that
  cannot be opened. Both handlers of the \<open>try\<close> block print a message and return
  \<open>None\<close>, whatever was raised.
\<close>

definition load_data :: "workbook option \<Rightarrow> data option" where
  "load_data file_source =
     (case file_source of
        None \<Rightarrow> None
      | Some xl \<Rightarrow> (case load_data_try xl of
                     Inl KeyError \<Rightarrow> None
                   | Inl _ \<Rightarrow> None
                   | Inr d \<Rightarrow> Some d))"

section \<open>Projection engine\<close>

text \<open>
  A row of the projection table as the yearly loop fills it, and the row with the two
  present-value columns that are added after the loop.
\<close>

record year_row =
  Ingresos_B1 :: pyfloat
  Ingresos_B2 :: pyfloat
  Ingresos_G :: pyfloat
  Ingresos_Totales :: pyfloat
  EBIT :: pyfloat
  Depreciacion :: pyfloat
  NOPAT :: pyfloat
  Capital_de_Trabajo :: pyfloat
  Delta_CTN :: pyfloat
  CapEx_Total :: pyfloat
  FCF :: pyfloat

record row = year_row +
  VP_Factor :: pyfloat
  Valor_Presente_FCF :: pyfloat

record valuation =
  VE_FCF_Proyectados :: pyfloat
  Valor_Terminal :: pyfloat
  VP_Valor_Terminal :: pyfloat
  Valor_Empresa_VE :: pyfloat
  val_WACC :: pyfloat
  val_G_Perpetuidad :: pyfloat
  val_Tasa_ISR :: pyfloat

record DCFModel =
  file_source :: "workbook option"
  proyeccion :: "(int \<times> row) list"
  valoracion :: "valuation option"
  years :: nat
  start_year :: int
  base_year :: int
  data :: "data option"

definition init :: "workbook option \<Rightarrow> DCFModel" where
  "init src =
     \<lparr>file_source = src, proyeccion = [], valoracion = None, years = 5,
      start_year = 2026, base_year = 2025, data = load_data src\<rparr>"

text \<open>\<open>df.iloc[r, c]\<close>, \<open>df.loc[label, column]\<close> and \<open>xs[i]\<close>, each with its exception.\<close>

definition iloc :: "grid \<Rightarrow> nat \<Rightarrow> nat \<Rightarrow> exn + cell" where
  "iloc g r c =
     (if r < length g \<and> c < length (g ! r) then Inr (g ! r ! c) else Inl IndexError)"

definition loc :: "(int \<times> 'r) list \<Rightarrow> int \<Rightarrow> ('r \<Rightarrow> pyfloat) \<Rightarrow> exn + pyfloat" where
  "loc df label col = (case map_of df label of None \<Rightarrow> Inl KeyError | Some r \<Rightarrow> Inr (col r))"

definition list_get :: "'a list \<Rightarrow> nat \<Rightarrow> exn + 'a" where
  "list_get xs i = (if i < length xs then Inr (xs ! i) else Inl IndexError)"

definition get_prev_ingreso ::
  "(int \<times> year_row) list \<Rightarrow> nat \<Rightarrow> int \<Rightarrow> (year_row \<Rightarrow> pyfloat) \<Rightarrow> pyfloat \<Rightarrow> exn + pyfloat" where
  "get_prev_ingreso df_proj t prev_year_str ingreso_key base_ingreso_value =
     (if 1 < t then loc df_proj prev_year_str ingreso_key else Inr base_ingreso_value)"

text \<open>
  One pass of the loop over \<open>t\<close>: the row of year \<open>start_year + t - 1\<close>, computed from
  the inputs and from the rows stored so far.
\<close>

definition year_step ::
  "int \<Rightarrow> data \<Rightarrow> nat \<Rightarrow> (int \<times> year_row) list \<Rightarrow> exn + (int \<times> year_row) list" where
  "year_step start d t df_proj =
     (let year_str = start + int t - 1;
          prev_year_str = start + int t - 2;
          proyecciones_raw = proyecciones d;
          b = base d
      in
      ebind (iloc proyecciones_raw 1 0) (\<lambda>c1.
      ebind (iloc proyecciones_raw 2 t) (\<lambda>cg1.
      ebind (iloc proyecciones_raw 3 t) (\<lambda>cv1.
      ebind (get_prev_ingreso df_proj t prev_year_str Ingresos_B1 (clean_and_convert c1 False))
        (\<lambda>ingreso_1_prev.
      let ingreso_1_actual = fmul ingreso_1_prev (fadd (Fin 1) (clean_and_convert cg1 True));
          costo_1 = fadd (Fin 0) (fmul ingreso_1_actual (clean_and_convert cv1 True))
      in
      ebind (iloc proyecciones_raw 5 0) (\<lambda>c2.
      ebind (iloc proyecciones_raw 6 t) (\<lambda>cg2.
      ebind (iloc proyecciones_raw 7 t) (\<lambda>cv2.
      ebind (get_prev_ingreso df_proj t prev_year_str Ingresos_B2 (clean_and_convert c2 False))
        (\<lambda>ingreso_2_prev.
      let ingreso_2_actual = fmul ingreso_2_prev (fadd (Fin 1) (clean_and_convert cg2 True));
          costo_2 = fadd costo_1 (fmul ingreso_2_actual (clean_and_convert cv2 True))
      in
      ebind (iloc proyecciones_raw 9 0) (\<lambda>cG.
      ebind (iloc proyecciones_raw 10 t) (\<lambda>cgG.
      ebind (iloc proyecciones_raw 11 t) (\<lambda>cvG.
      ebind (get_prev_ingreso df_proj t prev_year_str Ingresos_G (clean_and_convert cG False))
        (\<lambda>ingreso_G_prev.
      let ingreso_G_actual = fmul ingreso_G_prev (fadd (Fin 1) (clean_and_convert cgG True));
          total_costo_venta = fadd costo_2 (fmul ingreso_G_actual (clean_and_convert cvG True));
          total_ingresos_base = fadd (fadd ingreso_1_actual ingreso_2_actual) ingreso_G_actual
      in
      ebind (list_get (ingresos_adicionales (proyectos d)) (t - 1)) (\<lambda>ingresos_ad.
      ebind (list_get (gastos_ahorros_operativos (proyectos d)) (t - 1)) (\<lambda>gastos_ahorros.
      ebind (list_get (depreciacion_adicional (proyectos d)) (t - 1)) (\<lambda>depreciacion_ad.
      ebind (list_get (capex_inversion (proyectos d)) (t - 1)) (\<lambda>capex_proyectos.
      let gastos_fijos_actual =
            fmul (Gastos_Fijos_Operativos_2025 b) (fpow (fadd (Fin 1) (Fin 0.03)) t)
      in
      ebind (iloc proyecciones_raw 13 t) (\<lambda>cgv.
      let gastos_variables_actual = fmul total_ingresos_base (clean_and_convert cgv True);
          ingresos_totales = fadd total_ingresos_base ingresos_ad;
          ebit = fadd (fsub (fsub (fsub ingresos_totales total_costo_venta)
                   gastos_fijos_actual) gastos_variables_actual) gastos_ahorros;
          depreciacion = fadd (fmul total_ingresos_base (Dep_Pct_Base b)) depreciacion_ad;
          nopat = fmul ebit (fsub (Fin 1) (Tasa_ISR b));
          ck_current =
            fsub (fadd (fmul (fdiv (Dias_CxC b) (Fin 365)) ingresos_totales)
                       (fmul (fdiv (Dias_Inv b) (Fin 365)) total_costo_venta))
                 (fmul (fdiv (Dias_CxP b) (Fin 365)) total_costo_venta)
      in
      ebind (if 1 < t then loc df_proj prev_year_str Capital_de_Trabajo else Inr (Fin 0))
        (\<lambda>ck_prev.
      let delta_ctn = fsub ck_current ck_prev;
          capex_total = fadd (fmul total_ingresos_base (CapEx_Pct_Base b)) capex_proyectos;
          fcf = fsub (fsub (fadd nopat depreciacion) delta_ctn) capex_total
      in
      Inr (AList.update year_str
             \<lparr>Ingresos_B1 = ingreso_1_actual, Ingresos_B2 = ingreso_2_actual,
              Ingresos_G = ingreso_G_actual, Ingresos_Totales = ingresos_totales,
              EBIT = ebit, Depreciacion = depreciacion, NOPAT = nopat,
              Capital_de_Trabajo = ck_current, Delta_CTN = delta_ctn,
              CapEx_Total = capex_total, FCF = fcf\<rparr> df_proj))))))))))))))))))))"

fun year_loop ::
  "int \<Rightarrow> data \<Rightarrow> nat list \<Rightarrow> (int \<times> year_row) list \<Rightarrow> exn + (int \<times> year_row) list" where
  "year_loop start d [] df_proj = Inr df_proj"
| "year_loop start d (t # ts) df_proj =
     ebind (year_step start d t df_proj) (year_loop start d ts)"

text \<open>\<open>[(1 / (1 + wacc)**i) for i in proj_years_idx]\<close>: Python floats, so a zero raises.\<close>

fun discount_factors :: "pyfloat \<Rightarrow> nat list \<Rightarrow> exn + pyfloat list" where
  "discount_factors wacc [] = Inr []"
| "discount_factors wacc (i # is) =
     ebind (py_truediv (Fin 1) (fpow (fadd (Fin 1) wacc) i)) (\<lambda>f.
     ebind (discount_factors wacc is) (\<lambda>fs. Inr (f # fs)))"

text \<open>The two columns assigned after the loop, row by row.\<close>

definition add_present_value :: "(int \<times> year_row) \<Rightarrow> pyfloat \<Rightarrow> (int \<times> row)" where
  "add_present_value yr f =
     (fst yr, year_row.extend (snd yr) (row.fields f (fmul (FCF (snd yr)) f)))"

definition calculate_projection :: "DCFModel \<Rightarrow> exn + (bool \<times> DCFModel)" where
  "calculate_projection m =
     (case data m of
        None \<Rightarrow> Inr (False, m)
      | Some d \<Rightarrow>
          ebind (year_loop (start_year m) d [1 ..< years m + 1] []) (\<lambda>df_proj.
          ebind (discount_factors (WACC (base d)) [1 ..< years m + 1]) (\<lambda>factors.
          Inr (True, m\<lparr>proyeccion := map2 add_present_value df_proj factors\<rparr>))))"

section \<open>Valuation engine\<close>

text \<open>\<open>Series.sum()\<close>: NaN entries are skipped.\<close>

definition pd_sum :: "pyfloat list \<Rightarrow> pyfloat" where
  "pd_sum xs = foldl fadd (Fin 0) (filter (\<lambda>x. x \<noteq> NaN) xs)"

definition calculate_valuation :: "DCFModel \<Rightarrow> exn + (bool \<times> DCFModel)" where
  "calculate_valuation m =
     (if proyeccion m = [] then Inr (False, m)
      else
        (case data m of
           None \<Rightarrow> Inl TypeError
         | Some d \<Rightarrow>
             (let b = base d;
                  wacc = WACC b;
                  g = G_Perpetuidad b;
                  last_year_label = start_year m + int (years m) - 1
              in
              ebind (loc (proyeccion m) last_year_label NOPAT) (\<lambda>nopat_n.
              ebind (loc (proyeccion m) last_year_label FCF) (\<lambda>fcf_n.
              ebind (loc (proyeccion m) last_year_label VP_Factor) (\<lambda>vp_factor_n.
              let fcf_perpetuo = fmul fcf_n (fadd (Fin 1) g);
                  valor_terminal = fdiv fcf_perpetuo (fsub wacc g);
                  vp_vt = fmul valor_terminal vp_factor_n;
                  vp_fcf_proyectados = pd_sum (map (\<lambda>yr. Valor_Presente_FCF (snd yr)) (proyeccion m));
                  valor_empresa_ve = fadd vp_fcf_proyectados vp_vt
              in
              Inr (True, m\<lparr>valoracion := Some
                     \<lparr>VE_FCF_Proyectados = vp_fcf_proyectados,
                      Valor_Terminal = valor_terminal,
                      VP_Valor_Terminal = vp_vt,
                      Valor_Empresa_VE = valor_empresa_ve,
                      val_WACC = wacc,
                      val_G_Perpetuidad = g,
                      val_Tasa_ISR = Tasa_ISR b\<rparr>\<rparr>)))))))"

section \<open>Model facade\<close>

definition run_model :: "DCFModel \<Rightarrow> exn + (bool \<times> DCFModel)" where
  "run_model m =
     (if data m = None then Inr (False, m)
      else ebind (calculate_projection m) (\<lambda>sm.
             if fst sm then calculate_valuation (snd sm) else Inr (False, snd sm)))"

text \<open>
  The sensitivity entry point of the desktop front-end: both rates are given in percent,
  stored as decimals in the loaded bundle, and the model is run again.
\<close>

definition recalculate_dcf_model_sync ::
  "pyfloat \<Rightarrow> pyfloat \<Rightarrow> DCFModel \<Rightarrow> exn + (bool \<times> DCFModel)" where
  "recalculate_dcf_model_sync new_wacc_pct new_g_pct dcf_model =
     (case data dcf_model of
        None \<Rightarrow> Inl TypeError
      | Some d \<Rightarrow>
          run_model (dcf_model\<lparr>data := Some (d\<lparr>base := (base d)
            \<lparr>WACC := fdiv new_wacc_pct (Fin 100),
             G_Perpetuidad := fdiv new_g_pct (Fin 100)\<rparr>\<rparr>)\<rparr>))"

definition get_valuation_summary :: "DCFModel \<Rightarrow> valuation option" where
  "get_valuation_summary m = valoracion m"

definition get_detailed_proyection :: "DCFModel \<Rightarrow> (int \<times> row) list" where
  "get_detailed_proyection m = proyeccion m"

section \<open>Notions used to state the properties\<close>

text \<open>The labels that \<open>_load_data\<close> looks up in the assumptions sheet, in its order.\<close>

definition required_labels :: "string list" where
  "required_labels =
     [''ingresos_totales_2025'', ''gastos_fijos_operativos_2025'', ''dias_cxc'', ''dias_inv'',
      ''dias_cxp'', ''wacc'', ''g-tasa_de_crecimiento_a_perpetuidad'', ''tasa_isr'',
      ''dep_pct_base'', ''capex_pct_base'']"

text \<open>A row of the assumptions sheet carries the label, once normalized.\<close>

definition label_present :: "workbook \<Rightarrow> string \<Rightarrow> bool" where
  "label_present xl l =
     (case xl ''Hipotesis_Base'' of
        None \<Rightarrow> False
      | Some g \<Rightarrow> Some l \<in> fst ` set (index_col0 (rectangular g)))"

text \<open>
  What a caller sees of a run: the exception, or the flag returned together with the
  valuation summary.
\<close>

definition summary_of :: "exn + bool \<times> DCFModel \<Rightarrow> exn + bool \<times> valuation option" where
  "summary_of res = map_sum id (\<lambda>sm. (fst sm, get_valuation_summary (snd sm))) res"

text \<open>The model of a workbook after the projection step (as loaded, if that step raised).\<close>

definition projected_model :: "workbook \<Rightarrow> DCFModel" where
  "projected_model xl =
     (case calculate_projection (init (Some xl)) of
        Inl e \<Rightarrow> init (Some xl)
      | Inr sm \<Rightarrow> snd sm)"

text \<open>The rates of the loaded bundle and the label of the last forecast year.\<close>

definition loaded_rates :: "DCFModel \<Rightarrow> (pyfloat \<times> pyfloat) option" where
  "loaded_rates m = map_option (\<lambda>d. (WACC (base d), G_Perpetuidad (base d))) (data m)"

definition last_year_label :: "DCFModel \<Rightarrow> int" where
  "last_year_label m = start_year m + int (years m) - 1"

text \<open>The normalized value of a cell of the drivers table, when the table has the cell.\<close>

definition cell_value :: "grid \<Rightarrow> nat \<Rightarrow> nat \<Rightarrow> bool \<Rightarrow> pyfloat option" where
  "cell_value g r c is_percentage =
     (case iloc g r c of Inl e \<Rightarrow> None | Inr v \<Rightarrow> Some (clean_and_convert v is_percentage))"

text \<open>
  The cost of sales of year \<open>t\<close>, from the stream levels of the year's row: each level
  times the year's cost ratio of its stream, accumulated from 0 in the order of the
  streams.
\<close>

definition costo_venta :: "grid \<Rightarrow> nat \<Rightarrow> 'a year_row_scheme \<Rightarrow> pyfloat option" where
  "costo_venta g t r =
     (case (cell_value g 3 t True, cell_value g 7 t True, cell_value g 11 t True) of
        (Some cv1, Some cv2, Some cvG) \<Rightarrow>
          Some (fadd (fadd (fadd (Fin 0) (fmul (Ingresos_B1 r) cv1)) (fmul (Ingresos_B2 r) cv2))
                  (fmul (Ingresos_G r) cvG))
      | _ \<Rightarrow> None)"

text \<open>
  The prior level of a revenue stream in year \<open>t\<close>: the level stored in the row of the
  year before or, in the first forecast year, the base-year cell of the stream.
\<close>

definition prior_level ::
  "grid \<Rightarrow> nat \<Rightarrow> nat \<Rightarrow> 'a year_row_scheme option \<Rightarrow> ('a year_row_scheme \<Rightarrow> pyfloat) \<Rightarrow> pyfloat option" where
  "prior_level g t base_row prev col =
     (if 1 < t then map_option col prev else cell_value g base_row 0 False)"

text \<open>
  What one pass of the yearly loop establishes between the inputs, the row \<open>prev\<close> stored
  for the year before (if any) and the row \<open>r\<close> it stores for year \<open>t\<close>.
\<close>

definition year_ok :: "data \<Rightarrow> nat \<Rightarrow> 'a year_row_scheme option \<Rightarrow> 'b year_row_scheme \<Rightarrow> bool" where
  "year_ok d t prev r =
     (\<exists>g1 g2 gG p1 p2 pG cost gv ia ga da cp ckp.
        cell_value (proyecciones d) 2 t True = Some g1 \<and>
        cell_value (proyecciones d) 6 t True = Some g2 \<and>
        cell_value (proyecciones d) 10 t True = Some gG \<and>
        prior_level (proyecciones d) t 1 prev Ingresos_B1 = Some p1 \<and>
        prior_level (proyecciones d) t 5 prev Ingresos_B2 = Some p2 \<and>
        prior_level (proyecciones d) t 9 prev Ingresos_G = Some pG \<and>
        Ingresos_B1 r = fmul p1 (fadd (Fin 1) g1) \<and>
        Ingresos_B2 r = fmul p2 (fadd (Fin 1) g2) \<and>
        Ingresos_G r = fmul pG (fadd (Fin 1) gG) \<and>
        costo_venta (proyecciones d) t r = Some cost \<and>
        cell_value (proyecciones d) 13 t True = Some gv \<and>
        list_get (ingresos_adicionales (proyectos d)) (t - 1) = Inr ia \<and>
        list_get (gastos_ahorros_operativos (proyectos d)) (t - 1) = Inr ga \<and>
        list_get (depreciacion_adicional (proyectos d)) (t - 1) = Inr da \<and>
        list_get (capex_inversion (proyectos d)) (t - 1) = Inr cp \<and>
        Ingresos_Totales r =
          fadd (fadd (fadd (Ingresos_B1 r) (Ingresos_B2 r)) (Ingresos_G r)) ia \<and>
        EBIT r =
          fadd (fsub (fsub (fsub (Ingresos_Totales r) cost)
                  (fmul (Gastos_Fijos_Operativos_2025 (base d)) (Fin (1.03 ^ t))))
                  (fmul (fadd (fadd (Ingresos_B1 r) (Ingresos_B2 r)) (Ingresos_G r)) gv)) ga \<and>
        Depreciacion r =
          fadd (fmul (fadd (fadd (Ingresos_B1 r) (Ingresos_B2 r)) (Ingresos_G r))
                  (Dep_Pct_Base (base d))) da \<and>
        NOPAT r = fmul (EBIT r) (fsub (Fin 1) (Tasa_ISR (base d))) \<and>
        Capital_de_Trabajo r =
          fsub (fadd (fmul (fdiv (Dias_CxC (base d)) (Fin 365)) (Ingresos_Totales r))
                     (fmul (fdiv (Dias_Inv (base d)) (Fin 365)) cost))
               (fmul (fdiv (Dias_CxP (base d)) (Fin 365)) cost) \<and>
        (if 1 < t then map_option Capital_de_Trabajo prev else Some (Fin 0)) = Some ckp \<and>
        Delta_CTN r = fsub (Capital_de_Trabajo r) ckp \<and>
        CapEx_Total r =
          fadd (fmul (fadd (fadd (Ingresos_B1 r) (Ingresos_B2 r)) (Ingresos_G r))
                  (CapEx_Pct_Base (base d))) cp \<and>
        FCF r = fsub (fsub (fadd (NOPAT r) (Depreciacion r)) (Delta_CTN r)) (CapEx_Total r))"

text \<open>What a caller sees of the terminal value after a run.\<close>

definition terminal_value_of :: "exn + bool \<times> DCFModel \<Rightarrow> exn + bool \<times> pyfloat option" where
  "terminal_value_of res =
     map_sum id (\<lambda>sm. (fst sm, map_option Valor_Terminal (get_valuation_summary (snd sm)))) res"

text \<open>The sensitivity entry point, applied to the model that a run has left.\<close>

definition rerun ::
  "pyfloat \<Rightarrow> pyfloat \<Rightarrow> exn + bool \<times> DCFModel \<Rightarrow> exn + bool \<times> DCFModel" where
  "rerun new_wacc_pct new_g_pct res =
     ebind res (\<lambda>sm. recalculate_dcf_model_sync new_wacc_pct new_g_pct (snd sm))"

text \<open>The column of undiscounted free cash flows of the projection held by a model.\<close>

definition fcf_column :: "exn + bool \<times> DCFModel \<Rightarrow> exn + (int \<times> pyfloat) list" where
  "fcf_column res =
     map_sum id (\<lambda>sm. map (\<lambda>yr. (fst yr, FCF (snd yr))) (get_detailed_proyection (snd sm))) res"

text \<open>The rows of a sheet but those whose first cell is the given one.\<close>

definition rows_without :: "cell \<Rightarrow> grid \<Rightarrow> grid" where
  "rows_without c g = filter (\<lambda>r. case r of [] \<Rightarrow> True | x # xs \<Rightarrow> x \<noteq> c) g"

text \<open>The model that a run has left, or the given one if the run raised.\<close>

definition model_after :: "exn + bool \<times> DCFModel \<Rightarrow> DCFModel \<Rightarrow> DCFModel" where
  "model_after res m0 = (case res of Inl e \<Rightarrow> m0 | Inr sm \<Rightarrow> snd sm)"

text \<open>
  The summary that the valuation step stores, from the projection, the row of its last
  year and the base parameters.
\<close>

definition valuation_record :: "(int \<times> row) list \<Rightarrow> row \<Rightarrow> base_vars \<Rightarrow> valuation" where
  "valuation_record df r b =
     \<lparr>VE_FCF_Proyectados = pd_sum (map (\<lambda>yr. Valor_Presente_FCF (snd yr)) df),
      Valor_Terminal =
        fdiv (fmul (FCF r) (fadd (Fin 1) (G_Perpetuidad b))) (fsub (WACC b) (G_Perpetuidad b)),
      VP_Valor_Terminal =
        fmul (fdiv (fmul (FCF r) (fadd (Fin 1) (G_Perpetuidad b)))
                   (fsub (WACC b) (G_Perpetuidad b))) (VP_Factor r),
      Valor_Empresa_VE =
        fadd (pd_sum (map (\<lambda>yr. Valor_Presente_FCF (snd yr)) df))
             (fmul (fdiv (fmul (FCF r) (fadd (Fin 1) (G_Perpetuidad b)))
                         (fsub (WACC b) (G_Perpetuidad b))) (VP_Factor r)),
      val_WACC = WACC b,
      val_G_Perpetuidad = G_Perpetuidad b,
      val_Tasa_ISR = Tasa_ISR b\<rparr>"

text \<open>
  The discount factor of year \<open>i\<close>, \<open>1 / (1 + wacc)**i\<close>, and the projection table that
  the rows of the yearly loop become once the two present-value columns are added.
\<close>

definition discount_factor :: "pyfloat \<Rightarrow> nat \<Rightarrow> pyfloat" where
  "discount_factor wacc i = fdiv (Fin 1) (fpow (fadd (Fin 1) wacc) i)"

definition discounted :: "pyfloat \<Rightarrow> nat \<Rightarrow> (int \<times> year_row) list \<Rightarrow> (int \<times> row) list" where
  "discounted wacc n df = map2 add_present_value df (map (discount_factor wacc) [1 ..< n + 1])"

text \<open>The row of the table for a row of the loop and a discount factor.\<close>

definition discounted_row :: "year_row \<Rightarrow> pyfloat \<Rightarrow> row" where
  "discounted_row r f = year_row.extend r (row.fields f (fmul (FCF r) f))"

section \<open>Example workbooks\<close>

text \<open>
  A workbook with the three sheets in the layout the loader expects. The cells of the
  discount rate and of the perpetuity growth rate are left open.
\<close>

definition example_base :: "cell \<Rightarrow> cell \<Rightarrow> grid" where
  "example_base wacc_cell g_cell =
     [[Str ''Ingresos Totales 2025'', Num 2000000],
      [Str ''Gastos Fijos Operativos 2025'', Num 400000],
      [Str ''Dias CxC'', Num 30],
      [Str ''Dias Inv'', Num 45],
      [Str ''Dias CxP'', Num 60],
      [Str ''WACC'', wacc_cell],
      [Str ''g-Tasa de crecimiento a perpetuidad'', g_cell],
      [Str ''Tasa ISR'', Num 30],
      [Str ''Dep Pct Base'', Str ''5%''],
      [Str ''CapEx Pct Base'', Str ''4%'']]"

definition example_proyecciones :: grid where
  "example_proyecciones =
     [[Str ''Concepto'', Num 2025, Num 2026, Num 2027, Num 2028, Num 2029, Num 2030],
      [Str ''Binomio 1''],
      [Str ''Ingresos'', Num 1000000],
      [Str ''Crecimiento'', Blank, Str ''5%'', Str ''5%'', Num 0.04, Num 4, Num 3],
      [Str ''Costo de venta'', Blank, Str ''40%'', Str ''40%'', Str ''40%'', Num 0.4, Num 40],
      [Str ''Binomio 2''],
      [Str ''Ingresos'', Str ''$600,000''],
      [Str ''Crecimiento'', Blank, Num 0.1, Num 0.1, Num 0.1, Num 0.1, Num 0.1],
      [Str ''Costo de venta'', Blank, Num 0.5, Num 0.5, Num 0.5, Num 0.5, Num 0.5],
      [Str ''General''],
      [Str ''Ingresos'', Num 400000],
      [Str ''Crecimiento'', Blank, Num 0, Num 0, Num 0, Num 0, Num 0],
      [Str ''Costo de venta'', Blank, Num 0.3, Num 0.3, Num 0.3, Num 0.3, Num 0.3],
      [Str ''Gastos''],
      [Str ''Gastos variables'', Blank, Num 0.1, Num 0.1, Num 0.1, Num 0.1, Num 0.1]]"

definition example_impacto :: grid where
  "example_impacto =
     [[Str ''Impacto de proyectos''],
      [],
      [Str ''CapEx'', Blank, Blank, Num 100000, Num 50000, Num 0, Num 0, Num 0],
      [], [], [],
      [Str ''Ingresos'', Blank, Blank, Num 0, Num 80000, Num 90000, Num 90000, Num 90000],
      [], [], [],
      [Str ''Ahorros'', Blank, Blank, Num 0, Num 10000, Num 10000, Num 10000, Num 10000],
      [], [], [],
      [Str ''Depreciacion'', Blank, Blank, Num 0, Num 20000, Num 30000, Num 30000, Num 30000]]"

definition example_wb :: "cell \<Rightarrow> cell \<Rightarrow> workbook" where
  "example_wb wacc_cell g_cell =
     [''Hipotesis_Base'' \<mapsto> example_base wacc_cell g_cell,
      ''Proyecciones_Detalladas'' \<mapsto> example_proyecciones,
      ''Impacto_Proyectos'' \<mapsto> example_impacto]"

text \<open>The bundle that the example workbook loads to, for given rates.\<close>

definition example_data :: "pyfloat \<Rightarrow> pyfloat \<Rightarrow> data" where
  "example_data wacc g =
     \<lparr>base =
        \<lparr>Ingresos_Totales_2025 = Fin 2000000, Gastos_Fijos_Operativos_2025 = Fin 400000,
         Dias_CxC = Fin 30, Dias_Inv = Fin 45, Dias_CxP = Fin 60, WACC = wacc,
         G_Perpetuidad = g, Tasa_ISR = Fin 0.3, Dep_Pct_Base = Fin 0.05,
         CapEx_Pct_Base = Fin 0.04\<rparr>,
      proyecciones =
        [[Blank, Blank, Blank, Blank, Blank, Blank],
         [Num 1000000, Blank, Blank, Blank, Blank, Blank],
         [Blank, Str ''5%'', Str ''5%'', Num 0.04, Num 4, Num 3],
         [Blank, Str ''40%'', Str ''40%'', Str ''40%'', Num 0.4, Num 40],
         [Blank, Blank, Blank, Blank, Blank, Blank],
         [Str ''$600,000'', Blank, Blank, Blank, Blank, Blank],
         [Blank, Num 0.1, Num 0.1, Num 0.1, Num 0.1, Num 0.1],
         [Blank, Num 0.5, Num 0.5, Num 0.5, Num 0.5, Num 0.5],
         [Blank, Blank, Blank, Blank, Blank, Blank],
         [Num 400000, Blank, Blank, Blank, Blank, Blank],
         [Blank, Num 0, Num 0, Num 0, Num 0, Num 0],
         [Blank, Num 0.3, Num 0.3, Num 0.3, Num 0.3, Num 0.3],
         [Blank, Blank, Blank, Blank, Blank, Blank],
         [Blank, Num 0.1, Num 0.1, Num 0.1, Num 0.1, Num 0.1]],
      proyectos =
        \<lparr>capex_inversion = [Fin 100000, Fin 50000, Fin 0, Fin 0, Fin 0],
         ingresos_adicionales = [Fin 0, Fin 80000, Fin 90000, Fin 90000, Fin 90000],
         gastos_ahorros_operativos = [Fin 0, Fin 10000, Fin 10000, Fin 10000, Fin 10000],
         depreciacion_adicional = [Fin 0, Fin 20000, Fin 30000, Fin 30000, Fin 30000]\<rparr>\<rparr>"

text \<open>The rows that the yearly loop computes from the example bundle.\<close>

definition example_row_2030 :: year_row where
  "example_row_2030 =
     \<lparr>Ingresos_B1 = Fin (30705948 / 25), Ingresos_B2 = Fin 966306, Ingresos_G = Fin 400000,
      Ingresos_Totales = Fin (67113598 / 25), EBIT = Fin (21923293257 / 25000),
      Depreciacion = Fin (39931799 / 250), NOPAT = Fin (153463052799 / 250000),
      Capital_de_Trabajo = Fin (1602989877 / 9125), Delta_CTN = Fin (70877727 / 9125),
      CapEx_Total = Fin (64863598 / 625), FCF = Fin (12082051665727 / 18250000)\<rparr>"

definition example_rows :: "(int \<times> year_row) list" where
  "example_rows =
     [(2026,
       \<lparr>Ingresos_B1 = Fin 1050000, Ingresos_B2 = Fin 660000, Ingresos_G = Fin 400000,
        Ingresos_Totales = Fin 2110000, EBIT = Fin 617000, Depreciacion = Fin 105500,
        NOPAT = Fin 431900, Capital_de_Trabajo = Fin (10050000 / 73),
        Delta_CTN = Fin (10050000 / 73), CapEx_Total = Fin 184400,
        FCF = Fin (15719000 / 73)\<rparr>),
      (2027,
       \<lparr>Ingresos_B1 = Fin 1102500, Ingresos_B2 = Fin 726000, Ingresos_G = Fin 400000,
        Ingresos_Totales = Fin 2308500, EBIT = Fin 747290, Depreciacion = Fin 131425,
        NOPAT = Fin 523103, Capital_de_Trabajo = Fin (11079000 / 73),
        Delta_CTN = Fin (1029000 / 73), CapEx_Total = Fin 139140,
        FCF = Fin (36594324 / 73)\<rparr>),
      (2028,
       \<lparr>Ingresos_B1 = Fin 1146600, Ingresos_B2 = Fin 798600, Ingresos_G = Fin 400000,
        Ingresos_Totales = Fin 2435200, EBIT = Fin (3978246 / 5), Depreciacion = Fin 147260,
        NOPAT = Fin (13923861 / 25), Capital_de_Trabajo = Fin (11677380 / 73),
        Delta_CTN = Fin (598380 / 73), CapEx_Total = Fin 93808,
        FCF = Fin (1099032253 / 1825)\<rparr>),
      (2029,
       \<lparr>Ingresos_B1 = Fin 1192464, Ingresos_B2 = Fin 878460, Ingresos_G = Fin 400000,
        Ingresos_Totales = Fin 2560924, EBIT = Fin (209353119 / 250),
        Depreciacion = Fin (767731 / 5), NOPAT = Fin (1465471833 / 2500),
        Capital_de_Trabajo = Fin (61284486 / 365), Delta_CTN = Fin (2897586 / 365),
        CapEx_Total = Fin (2470924 / 25), FCF = Fin (115515087109 / 182500)\<rparr>),
      (2030, example_row_2030)]"

text \<open>
  A workbook with the three sheets and the ten labels in which every value cell but the
  two rates is blank, the bundle it loads to and the rows of its projection.
\<close>

definition blank_base :: "cell \<Rightarrow> cell \<Rightarrow> grid" where
  "blank_base wacc_cell g_cell =
     [[Str ''ingresos_totales_2025'', Blank],
      [Str ''gastos_fijos_operativos_2025''],
      [Str ''dias_cxc''],
      [Str ''dias_inv''],
      [Str ''dias_cxp''],
      [Str ''wacc'', wacc_cell],
      [Str ''g-tasa_de_crecimiento_a_perpetuidad'', g_cell],
      [Str ''tasa_isr''],
      [Str ''dep_pct_base''],
      [Str ''capex_pct_base'']]"

definition blank_proyecciones :: grid where
  "blank_proyecciones =
     [[Blank, Blank, Blank, Blank, Blank, Blank, Blank],
      [], [], [], [], [], [], [], [], [], [], [], [], [], []]"

definition blank_impacto :: grid where
  "blank_impacto =
     [[Blank, Blank, Blank, Blank, Blank, Blank, Blank, Blank],
      [], [], [], [], [], [], [], [], [], [], [], [], [], []]"

definition blank_wb :: "cell \<Rightarrow> cell \<Rightarrow> workbook" where
  "blank_wb wacc_cell g_cell =
     [''Hipotesis_Base'' \<mapsto> blank_base wacc_cell g_cell,
      ''Proyecciones_Detalladas'' \<mapsto> blank_proyecciones,
      ''Impacto_Proyectos'' \<mapsto> blank_impacto]"

definition blank_row6 :: "cell list" where
  "blank_row6 = [Blank, Blank, Blank, Blank, Blank, Blank]"

definition blank_data :: "pyfloat \<Rightarrow> pyfloat \<Rightarrow> data" where
  "blank_data wacc g =
     \<lparr>base =
        \<lparr>Ingresos_Totales_2025 = Fin 0, Gastos_Fijos_Operativos_2025 = Fin 0,
         Dias_CxC = Fin 0, Dias_Inv = Fin 0, Dias_CxP = Fin 0, WACC = wacc,
         G_Perpetuidad = g, Tasa_ISR = Fin 0, Dep_Pct_Base = Fin 0, CapEx_Pct_Base = Fin 0\<rparr>,
      proyecciones =
        [blank_row6, blank_row6, blank_row6, blank_row6, blank_row6, blank_row6, blank_row6,
         blank_row6, blank_row6, blank_row6, blank_row6, blank_row6, blank_row6, blank_row6],
      proyectos =
        \<lparr>capex_inversion = [Fin 0, Fin 0, Fin 0, Fin 0, Fin 0],
         ingresos_adicionales = [Fin 0, Fin 0, Fin 0, Fin 0, Fin 0],
         gastos_ahorros_operativos = [Fin 0, Fin 0, Fin 0, Fin 0, Fin 0],
         depreciacion_adicional = [Fin 0, Fin 0, Fin 0, Fin 0, Fin 0]\<rparr>\<rparr>"

definition zero_row :: year_row where
  "zero_row =
     \<lparr>Ingresos_B1 = Fin 0, Ingresos_B2 = Fin 0, Ingresos_G = Fin 0, Ingresos_Totales = Fin 0,
      EBIT = Fin 0, Depreciacion = Fin 0, NOPAT = Fin 0, Capital_de_Trabajo = Fin 0,
      Delta_CTN = Fin 0, CapEx_Total = Fin 0, FCF = Fin 0\<rparr>"

definition zero_rows :: "(int \<times> year_row) list" where
  "zero_rows = [(2026, zero_row), (2027, zero_row), (2028, zero_row), (2029, zero_row),
                (2030, zero_row)]"

section \<open>Properties of the scalar normalizer\<close>

lemma fadd_zero_left: "fadd (Fin 0) x = x"
  by (cases x) simp_all

lemma fsub_zero_right: "fsub x (Fin 0) = x"
  by (cases x) (simp_all add: fsub_def)

text \<open>
  Claim C5. The five equalities of the normalizer's contract: \<open>"30%"\<close> gives 0.30,
  \<open>"1,234.5"\<close> gives 1234.5, the empty string gives 0.0, the number 0.3 with the
  percentage hint stays 0.3, and \<open>"abc"\<close> gives 0.0. A blank cell and an empty string
  give 0.0 whatever the hint; the function has no failing result.
\<close>

theorem clean_and_convert_contract:
  "clean_and_convert (Str ''30%'') False = Fin 0.30 \<and>
   clean_and_convert (Str ''1,234.5'') False = Fin 1234.5 \<and>
   clean_and_convert (Str '''') False = Fin 0.0 \<and>
   clean_and_convert (Num 0.3) True = Fin 0.3 \<and>
   clean_and_convert (Str ''abc'') False = Fin 0.0 \<and>
   (\<forall>p. clean_and_convert Blank p = Fin 0.0) \<and>
   (\<forall>p. clean_and_convert (Str []) p = Fin 0.0)"
proof -
  have a: "clean_and_convert (Str ''30%'') False = Fin 0.30" by code_simp
  have b: "clean_and_convert (Str ''1,234.5'') False = Fin 1234.5" by code_simp
  have c: "clean_and_convert (Str '''') False = Fin 0.0" by code_simp
  have d: "clean_and_convert (Num 0.3) True = Fin 0.3" by code_simp
  have e: "clean_and_convert (Str ''abc'') False = Fin 0.0" by code_simp
  have f: "\<forall>p. clean_and_convert Blank p = Fin 0.0" by (simp add: clean_and_convert_def)
  have g: "\<forall>p. clean_and_convert (Str []) p = Fin 0.0" by (simp add: clean_and_convert_def)
  from a b c d e f g show ?thesis by blast
qed



text \<open>
  Claim C4. The claim divides by 100 whenever the magnitude of a percentage exceeds 1.
  The code compares the signed value: at \<open>"-50%"\<close>, and at the number -50 with the
  percentage hint, the magnitude 50 exceeds 1 and the value comes back undivided.
\<close>

theorem negative_percentage_not_divided:
  "clean_and_convert (Str ''-50%'') False = Fin (- 50) \<and>
   clean_and_convert (Num (- 50)) True = Fin (- 50) \<and>
   1 < \<bar>- 50 :: real\<bar>"
proof -
  have a: "clean_and_convert (Str ''-50%'') False = Fin (- 50)" by code_simp
  have b: "clean_and_convert (Num (- 50)) True = Fin (- 50)" by code_simp
  show ?thesis using a b by simp
qed

section \<open>Properties of the loader\<close>

lemma ebind_Inr [simp]: "ebind (Inr v) f = f v"
  by (simp add: ebind_def)

lemma ebind_Inl [simp]: "ebind (Inl e) f = Inl e"
  by (simp add: ebind_def)

lemma ebind_weak_cong: "m = m' \<Longrightarrow> ebind m f = ebind m' f"
  by simp

lemma ebind_eq_Inr: "ebind m f = Inr y \<longleftrightarrow> (\<exists>v. m = Inr v \<and> f v = Inr y)"
  by (cases m) simp_all

lemma cc_Blank: "clean_and_convert Blank p = Fin 0"
  by (simp add: clean_and_convert_def)

lemma cc_Num: "clean_and_convert (Num r) p = percent_rule p (Fin r)"
  by (simp add: clean_and_convert_def)

lemma get_base_value_Inr:
  assumes "get_base_value df l p = Inr v"
  shows "Some l \<in> fst ` set df"
proof -
  have "filter (\<lambda>r. fst r = Some l) df \<noteq> []"
    using assms by (auto simp: get_base_value_def)
  then obtain r where "r \<in> set df" and "fst r = Some l"
    by (metis (mono_tags, lifting) filter_False)
  then show ?thesis by force
qed

lemma load_base_vars_Inr:
  assumes "load_base_vars df = Inr b"
  shows "\<forall>l \<in> set required_labels. Some l \<in> fst ` set df"
  using assms unfolding load_base_vars_def required_labels_def ebind_eq_Inr
  by (auto dest!: get_base_value_Inr)

lemma parse_sheet_Inr: "parse_sheet xl name = Inr g \<Longrightarrow> xl name = Some (g0 :: grid) \<Longrightarrow> g = rectangular g0"
  by (simp add: parse_sheet_def)

lemma parse_sheet_None: "xl name = None \<Longrightarrow> parse_sheet xl name = Inl ValueError"
  by (simp add: parse_sheet_def)

lemma load_data_try_Inr:
  assumes "load_data_try xl = Inr d"
  shows "xl ''Hipotesis_Base'' \<noteq> None \<and> xl ''Proyecciones_Detalladas'' \<noteq> None \<and>
         xl ''Impacto_Proyectos'' \<noteq> None \<and> list_all (label_present xl) required_labels"
proof -
  from assms obtain g_base b g_proy g_imp where
    s1: "parse_sheet xl ''Hipotesis_Base'' = Inr g_base" and
    lb: "load_base_vars (index_col0 g_base) = Inr b" and
    s2: "parse_sheet xl ''Proyecciones_Detalladas'' = Inr g_proy" and
    s3: "parse_sheet xl ''Impacto_Proyectos'' = Inr g_imp"
    unfolding load_data_try_def ebind_eq_Inr by blast
  from s1 obtain g0 where g0: "xl ''Hipotesis_Base'' = Some g0" "g_base = rectangular g0"
    by (auto simp: parse_sheet_def split: option.splits)
  from s2 have p2: "xl ''Proyecciones_Detalladas'' \<noteq> None"
    by (auto simp: parse_sheet_def split: option.splits)
  from s3 have p3: "xl ''Impacto_Proyectos'' \<noteq> None"
    by (auto simp: parse_sheet_def split: option.splits)
  from load_base_vars_Inr [OF lb] g0
  have "list_all (label_present xl) required_labels"
    by (simp add: list_all_iff label_present_def)
  with g0 p2 p3 show ?thesis by simp
qed

lemma load_data_None_iff: "load_data (Some xl) = None \<longleftrightarrow> (\<exists>e. load_data_try xl = Inl e)"
  by (cases "load_data_try xl") (auto simp: load_data_def split: exn.splits)

lemma run_model_not_loaded:
  assumes "load_data src = None"
  shows "run_model (init src) = Inr (False, init src)"
  using assms by (simp add: run_model_def init_def)

text \<open>
  Claim C3, as the code has it. When one of the three sheets is absent, or one of the
  ten labels is on no row of the assumptions sheet, \<open>_load_data\<close> raises nothing and
  returns \<open>None\<close>, and a run of the model so constructed returns \<open>False\<close> and leaves it
  unchanged. The result does not say what was missing.
\<close>

theorem load_data_missing_schema:
  assumes "xl ''Hipotesis_Base'' = None \<or> xl ''Proyecciones_Detalladas'' = None \<or>
           xl ''Impacto_Proyectos'' = None \<or> \<not> list_all (label_present xl) required_labels"
  shows "load_data (Some xl) = None \<and>
         run_model (init (Some xl)) = Inr (False, init (Some xl))"
proof -
  have "\<exists>e. load_data_try xl = Inl e"
  proof (cases "load_data_try xl")
    case (Inl e)
    then show ?thesis by blast
  next
    case (Inr d)
    from load_data_try_Inr [OF Inr] assms have False by auto
    then show ?thesis by simp
  qed
  then have "load_data (Some xl) = None"
    by (simp add: load_data_None_iff)
  then show ?thesis
    by (simp add: run_model_not_loaded)
qed

theorem load_data_missing_schema_witness:
  "load_data (Some ((example_wb (Str ''20%'') (Num 0.03))(''Impacto_Proyectos'' := None))) = None \<and>
   run_model (init (Some ((example_wb (Str ''20%'') (Num 0.03))(''Impacto_Proyectos'' := None))))
     = Inr (False, init (Some ((example_wb (Str ''20%'') (Num 0.03))(''Impacto_Proyectos'' := None))))"
proof -
  have "((example_wb (Str ''20%'') (Num 0.03))(''Impacto_Proyectos'' := None)) ''Impacto_Proyectos'' = None"
    by simp
  then show ?thesis
    using load_data_missing_schema
      [of "(example_wb (Str ''20%'') (Num 0.03))(''Impacto_Proyectos'' := None)"]
    by blast
qed

subsection \<open>The example workbook, loaded\<close>

lemma cc_examples:
  "clean_and_convert (Str ''5%'') True = Fin 0.05"
  "clean_and_convert (Str ''40%'') True = Fin 0.4"
  "clean_and_convert (Str ''4%'') True = Fin 0.04"
  "clean_and_convert (Str ''$600,000'') False = Fin 600000"
  by code_simp+

lemma example_index:
  "index_col0 (rectangular (example_base a b)) =
     [(Some ''ingresos_totales_2025'', [Num 2000000]),
      (Some ''gastos_fijos_operativos_2025'', [Num 400000]),
      (Some ''dias_cxc'', [Num 30]),
      (Some ''dias_inv'', [Num 45]),
      (Some ''dias_cxp'', [Num 60]),
      (Some ''wacc'', [a]),
      (Some ''g-tasa_de_crecimiento_a_perpetuidad'', [b]),
      (Some ''tasa_isr'', [Num 30]),
      (Some ''dep_pct_base'', [Str ''5%'']),
      (Some ''capex_pct_base'', [Str ''4%''])]"
  by code_simp

lemma example_base_vars:
  "load_base_vars (index_col0 (rectangular (example_base a b))) =
     Inr (base (example_data (clean_and_convert a True) (clean_and_convert b True)))"
  unfolding example_index
  by (simp add: load_base_vars_def get_base_value_def example_data_def cc_Num cc_examples
      percent_rule_def cong: ebind_weak_cong)

lemma example_proyecciones_parsed:
  "parse_proyecciones (rectangular example_proyecciones) = Inr (proyecciones (example_data w g))"
  by (simp add: parse_proyecciones_def rectangular_def width_def example_proyecciones_def
      example_data_def)

lemma example_project_data:
  "load_project_data (drop 2 (rectangular example_impacto)) = Inr (proyectos (example_data w g))"
  by (simp add: load_project_data_def rectangular_def width_def example_impacto_def row_at_def
      project_values_def example_data_def cc_Num cc_Blank percent_rule_def cong: ebind_weak_cong)

lemma example_loaded:
  "load_data (Some (example_wb a b)) =
     Some (example_data (clean_and_convert a True) (clean_and_convert b True))"
proof -
  have "load_data_try (example_wb a b) =
          Inr (example_data (clean_and_convert a True) (clean_and_convert b True))"
    unfolding load_data_try_def
    by (simp add: parse_sheet_def example_wb_def example_base_vars
        example_proyecciones_parsed [of "clean_and_convert a True" "clean_and_convert b True"]
        example_project_data [of "clean_and_convert a True" "clean_and_convert b True"]
        cong: ebind_weak_cong)
  then show ?thesis by (simp add: load_data_def)
qed

lemma example_rates:
  "clean_and_convert (Str ''20%'') True = Fin 0.2"
  "clean_and_convert (Num 0.03) True = Fin 0.03"
  "clean_and_convert (Str ''10%'') True = Fin 0.1"
  "clean_and_convert (Str ''5%'') True = Fin 0.05"
  by code_simp+

text \<open>
  Claim C3, as stated, fails: a workbook without the project-impact sheet and a
  workbook whose assumptions sheet lacks the row of the discount rate both load to the
  same \<open>None\<close>, which names neither a section nor a label (the complete workbook
  loads).
\<close>

theorem load_failure_is_unstructured:
  "load_data (Some ((example_wb (Str ''20%'') (Num 0.03))(''Impacto_Proyectos'' := None))) = None \<and>
   load_data (Some ((example_wb (Str ''20%'') (Num 0.03))
      (''Hipotesis_Base'' \<mapsto>
         rows_without (Str ''WACC'') (example_base (Str ''20%'') (Num 0.03)))))
     = None \<and>
   load_data (Some (example_wb (Str ''20%'') (Num 0.03))) \<noteq> None"
proof -
  have "load_data_try ((example_wb (Str ''20%'') (Num 0.03))(''Impacto_Proyectos'' := None))
          = Inl ValueError"
    unfolding load_data_try_def
    by (simp add: parse_sheet_def example_wb_def example_base_vars
        example_proyecciones_parsed [of "Fin 0" "Fin 0"] cong: ebind_weak_cong)
  then have a: "load_data (Some ((example_wb (Str ''20%'') (Num 0.03))
                  (''Impacto_Proyectos'' := None))) = None"
    by (simp add: load_data_def)
  have idx: "index_col0 (rectangular (rows_without (Str ''WACC'') (example_base a b))) =
     [(Some ''ingresos_totales_2025'', [Num 2000000]),
      (Some ''gastos_fijos_operativos_2025'', [Num 400000]),
      (Some ''dias_cxc'', [Num 30]),
      (Some ''dias_inv'', [Num 45]),
      (Some ''dias_cxp'', [Num 60]),
      (Some ''g-tasa_de_crecimiento_a_perpetuidad'', [b]),
      (Some ''tasa_isr'', [Num 30]),
      (Some ''dep_pct_base'', [Str ''5%'']),
      (Some ''capex_pct_base'', [Str ''4%''])]" for a b
    by code_simp
  have lb: "load_base_vars (index_col0 (rectangular
              (rows_without (Str ''WACC'') (example_base a b)))) = Inl KeyError" for a b
    unfolding idx
    by (simp add: load_base_vars_def get_base_value_def cong: ebind_weak_cong)
  have "load_data_try ((example_wb (Str ''20%'') (Num 0.03))
          (''Hipotesis_Base'' \<mapsto>
             rows_without (Str ''WACC'') (example_base (Str ''20%'') (Num 0.03))))
          = Inl KeyError"
    unfolding load_data_try_def
    by (simp add: parse_sheet_def lb cong: ebind_weak_cong)
  then have b: "load_data (Some ((example_wb (Str ''20%'') (Num 0.03))
          (''Hipotesis_Base'' \<mapsto>
             rows_without (Str ''WACC'') (example_base (Str ''20%'') (Num 0.03)))))
          = None"
    by (simp add: load_data_def)
  have c: "load_data (Some (example_wb (Str ''20%'') (Num 0.03))) \<noteq> None"
    by (simp add: example_loaded)
  from a b c show ?thesis by blast
qed

section \<open>Properties of the projection\<close>

lemma loc_Inr: "loc df y col = Inr v \<longleftrightarrow> map_option col (map_of df y) = Some v"
  by (simp add: loc_def split: option.splits)

lemma year_step_spec:
  assumes "year_step start d t df = Inr df'"
  shows "\<exists>r. df' = AList.update (start + int t - 1) r df \<and>
             year_ok d t (map_of df (start + int t - 2)) r"
  using assms
  unfolding year_step_def Let_def ebind_eq_Inr get_prev_ingreso_def
  apply (elim exE conjE)
  apply (drule Inr_inject)
  apply (intro exI conjI)
   apply (erule sym)
  apply (simp add: year_ok_def cell_value_def costo_venta_def prior_level_def loc_Inr
      del: map_option_eq_Some split: if_splits)
  done

lemma year_loop_spec:
  assumes "year_loop start d ts df = Inr df'" and "sorted_wrt (<) ts"
  shows "(\<forall>y. y \<notin> (\<lambda>t. start + int t - 1) ` set ts \<longrightarrow> map_of df' y = map_of df y) \<and>
         (\<forall>t \<in> set ts. \<exists>r. map_of df' (start + int t - 1) = Some r \<and>
             year_ok d t (map_of df' (start + int t - 2)) r)"
  using assms
proof (induction ts arbitrary: df)
  case Nil
  then show ?case by simp
next
  case (Cons t ts)
  from Cons.prems(1) obtain df1 where
    step: "year_step start d t df = Inr df1" and rest: "year_loop start d ts df1 = Inr df'"
    by (auto simp: ebind_eq_Inr)
  from year_step_spec [OF step] obtain r where
    df1: "df1 = AList.update (start + int t - 1) r df" and
    ok: "year_ok d t (map_of df (start + int t - 2)) r"
    by blast
  from Cons.prems(2) have sorted: "sorted_wrt (<) ts" and later: "\<forall>u \<in> set ts. t < u"
    by simp_all
  from Cons.IH [OF rest sorted] have
    keep: "\<And>y. y \<notin> (\<lambda>t. start + int t - 1) ` set ts \<Longrightarrow> map_of df' y = map_of df1 y" and
    tail: "\<forall>u \<in> set ts. \<exists>r. map_of df' (start + int u - 1) = Some r \<and>
             year_ok d u (map_of df' (start + int u - 2)) r"
    by blast+
  have n1: "start + int t - 1 \<notin> (\<lambda>t. start + int t - 1) ` set ts"
    using later by auto
  have n2: "start + int t - 2 \<notin> (\<lambda>t. start + int t - 1) ` set ts"
    using later by auto
  have here: "map_of df' (start + int t - 1) = Some r"
    using keep [OF n1] by (simp add: df1 update_conv')
  have prev: "map_of df' (start + int t - 2) = map_of df (start + int t - 2)"
    using keep [OF n2] by (simp add: df1 update_conv')
  have unchanged: "\<forall>y. y \<notin> (\<lambda>t. start + int t - 1) ` set (t # ts) \<longrightarrow> map_of df' y = map_of df y"
    using keep by (simp add: df1 update_conv')
  from here prev ok tail unchanged show ?case by simp
qed

lemma year_loop_keys:
  assumes "year_loop start d ts df = Inr df'" and "sorted_wrt (<) ts"
    and "\<forall>t \<in> set ts. start + int t - 1 \<notin> fst ` set df"
  shows "map fst df' = map fst df @ map (\<lambda>t. start + int t - 1) ts"
  using assms
proof (induction ts arbitrary: df)
  case Nil
  then show ?case by simp
next
  case (Cons t ts)
  from Cons.prems(1) obtain df1 where
    step: "year_step start d t df = Inr df1" and rest: "year_loop start d ts df1 = Inr df'"
    by (auto simp: ebind_eq_Inr)
  from year_step_spec [OF step] obtain r where
    df1: "df1 = AList.update (start + int t - 1) r df"
    by blast
  from Cons.prems(3) have new: "start + int t - 1 \<notin> fst ` set df"
    by simp
  then have keys1: "map fst df1 = map fst df @ [start + int t - 1]"
    by (simp add: df1 update_keys)
  from Cons.prems(2) have sorted: "sorted_wrt (<) ts" and later: "\<forall>u \<in> set ts. t < u"
    by simp_all
  have fresh: "\<forall>u \<in> set ts. start + int u - 1 \<notin> fst ` set df1"
  proof
    fix u assume u: "u \<in> set ts"
    with later have "t < u" by blast
    moreover from Cons.prems(3) u have "start + int u - 1 \<notin> fst ` set df" by simp
    moreover have "fst ` set df1 = set (map fst df1)" by simp
    ultimately show "start + int u - 1 \<notin> fst ` set df1"
      unfolding \<open>fst ` set df1 = set (map fst df1)\<close> keys1 by auto
  qed
  from Cons.IH [OF rest sorted fresh] show ?case
    by (simp add: keys1)
qed

lemma discount_factors_Inr:
  assumes "discount_factors wacc is = Inr fs"
  shows "fs = map (\<lambda>i. fdiv (Fin 1) (fpow (fadd (Fin 1) wacc) i)) is"
  using assms
proof (induction "is" arbitrary: fs)
  case Nil
  then show ?case by simp
next
  case (Cons i "is")
  then show ?case
    by (auto simp: ebind_eq_Inr py_truediv_def split: if_splits)
qed

lemma map_of_add_present_value:
  assumes "map fst df = map L ts" and "distinct (map L ts)" and "t \<in> set ts"
    and "map_of df (L t) = Some r"
  shows "map_of (map2 add_present_value df (map F ts)) (L t) =
           Some (snd (add_present_value (L t, r) (F t)))"
  using assms
proof (induction ts arbitrary: df)
  case Nil
  then show ?case by simp
next
  case (Cons u us)
  from Cons.prems(1) obtain x df0 where df: "df = x # df0" and x: "fst x = L u"
    and keys0: "map fst df0 = map L us"
    by (cases df) auto
  show ?case
  proof (cases "L t = L u")
    case True
    with Cons.prems(2,3) have "t = u"
      by (metis distinct.simps(2) image_eqI list.simps(9) set_ConsD set_map)
    with Cons.prems(4) df x show ?thesis
      by (cases x) (simp add: add_present_value_def)
  next
    case False
    then have "t \<noteq> u" by auto
    with Cons.prems(3) have t: "t \<in> set us" by simp
    from False Cons.prems(4) df x have r: "map_of df0 (L t) = Some r"
      by (cases x) (simp split: if_splits)
    from Cons.prems(2) have "distinct (map L us)" by simp
    from Cons.IH [OF keys0 this t r] False df x show ?thesis
      by (cases x) (simp add: add_present_value_def)
  qed
qed

lemma extend_selectors:
  "Ingresos_B1 (year_row.extend r e) = Ingresos_B1 r"
  "Ingresos_B2 (year_row.extend r e) = Ingresos_B2 r"
  "Ingresos_G (year_row.extend r e) = Ingresos_G r"
  "Ingresos_Totales (year_row.extend r e) = Ingresos_Totales r"
  "EBIT (year_row.extend r e) = EBIT r"
  "Depreciacion (year_row.extend r e) = Depreciacion r"
  "NOPAT (year_row.extend r e) = NOPAT r"
  "Capital_de_Trabajo (year_row.extend r e) = Capital_de_Trabajo r"
  "Delta_CTN (year_row.extend r e) = Delta_CTN r"
  "CapEx_Total (year_row.extend r e) = CapEx_Total r"
  "FCF (year_row.extend r e) = FCF r"
  by (cases r; simp add: year_row.defs)+

lemma costo_venta_extend: "costo_venta g t (year_row.extend r e) = costo_venta g t r"
  by (simp add: costo_venta_def extend_selectors split: option.splits)

lemma year_ok_extend:
  "year_ok d t (map_option (\<lambda>r. year_row.extend r e1) prev) (year_row.extend r e2) =
     year_ok d t prev r"
  by (cases prev)
     (simp_all add: year_ok_def prior_level_def costo_venta_extend extend_selectors)

lemma year_ok_first:
  assumes "\<not> 1 < t" and "year_ok d t prev r"
  shows "year_ok d t prev' r"
  using assms by (simp add: year_ok_def prior_level_def)

lemma snd_add_present_value:
  "snd (add_present_value (y, r) f) = year_row.extend r (row.fields f (fmul (FCF r) f))"
  by (simp add: add_present_value_def)

lemma extend_present_value:
  "VP_Factor (year_row.extend r (row.fields f v)) = f"
  "Valor_Presente_FCF (year_row.extend r (row.fields f v)) = v"
  by (cases r; simp add: year_row.defs row.defs)+

lemma calculate_projection_Inr:
  assumes "calculate_projection m = Inr (ok, m')" and "data m = Some d"
  shows "\<exists>df. year_loop (start_year m) d [1 ..< years m + 1] [] = Inr df \<and>
              (\<forall>i \<in> {1 .. years m}. fpow (fadd (Fin 1) (WACC (base d))) i \<noteq> Fin 0) \<and>
              ok \<and>
              m' = m\<lparr>proyeccion := map2 add_present_value df
                     (map (\<lambda>i. fdiv (Fin 1) (fpow (fadd (Fin 1) (WACC (base d))) i))
                        [1 ..< years m + 1])\<rparr>"
proof -
  from assms obtain df fs where
    loop: "year_loop (start_year m) d [1 ..< years m + 1] [] = Inr df" and
    disc: "discount_factors (WACC (base d)) [1 ..< years m + 1] = Inr fs" and
    res: "ok" "m' = m\<lparr>proyeccion := map2 add_present_value df fs\<rparr>"
    by (auto simp: calculate_projection_def ebind_eq_Inr)
  have nz: "\<forall>i \<in> set is. fpow (fadd (Fin 1) w) i \<noteq> Fin 0"
    if "discount_factors w is = Inr fs'" for w "is" fs'
    using that
    by (induction "is" arbitrary: fs')
       (auto simp: ebind_eq_Inr py_truediv_def split: if_splits)
  from nz [OF disc] have "\<forall>i \<in> {1 .. years m}. fpow (fadd (Fin 1) (WACC (base d))) i \<noteq> Fin 0"
    by auto
  with loop res discount_factors_Inr [OF disc] show ?thesis by blast
qed

lemma calculate_projection_rows:
  assumes run: "calculate_projection m = Inr (ok, m')" and d: "data m = Some d"
    and t: "1 \<le> t" "t \<le> years m"
  shows "\<exists>r. map_of (proyeccion m') (start_year m + int t - 1) = Some r \<and>
             year_ok d t (map_of (proyeccion m') (start_year m + int t - 2)) r \<and>
             VP_Factor r = fdiv (Fin 1) (fpow (fadd (Fin 1) (WACC (base d))) t) \<and>
             Valor_Presente_FCF r = fmul (FCF r) (VP_Factor r)"
proof -
  define ts where "ts = [1 ..< years m + 1]"
  define L where "L = (\<lambda>t. start_year m + int t - 1)"
  define F where "F = (\<lambda>i. fdiv (Fin 1) (fpow (fadd (Fin 1) (WACC (base d))) i))"
  from calculate_projection_Inr [OF run d] obtain df where
    loop: "year_loop (start_year m) d ts [] = Inr df" and
    m': "proyeccion m' = map2 add_present_value df (map F ts)"
    unfolding ts_def F_def by auto
  have sorted: "sorted_wrt (<) ts" unfolding ts_def by (rule sorted_wrt_upt)
  have keys: "map fst df = map L ts"
    using year_loop_keys [OF loop sorted] by (simp add: L_def)
  have dist: "distinct (map L ts)"
    by (simp add: ts_def L_def distinct_map inj_on_def)
  have mem: "t \<in> set ts" using t by (auto simp: ts_def)
  from year_loop_spec [OF loop sorted] mem obtain r0 where
    r0: "map_of df (L t) = Some r0" and
    ok0: "year_ok d t (map_of df (start_year m + int t - 2)) r0"
    unfolding L_def by blast
  have final: "map_of (proyeccion m') (L t) = Some (snd (add_present_value (L t, r0) (F t)))"
    unfolding m' by (rule map_of_add_present_value [OF keys dist mem r0])
  let ?r = "snd (add_present_value (L t, r0) (F t))"
  have ok: "year_ok d t (map_of (proyeccion m') (start_year m + int t - 2)) ?r"
  proof (cases "1 < t")
    case True
    then have mem': "t - 1 \<in> set ts" using t by (auto simp: ts_def)
    have lab: "L (t - 1) = start_year m + int t - 2" using True by (simp add: L_def)
    from year_loop_spec [OF loop sorted] mem' obtain rp where
      rp: "map_of df (L (t - 1)) = Some rp"
      unfolding L_def by blast
    have "map_of (proyeccion m') (L (t - 1)) =
            Some (snd (add_present_value (L (t - 1), rp) (F (t - 1))))"
      unfolding m' by (rule map_of_add_present_value [OF keys dist mem' rp])
    with rp ok0 show ?thesis
      unfolding lab [symmetric] snd_add_present_value
      using year_ok_extend [of d t _ "Some rp" r0] by simp
  next
    case False
    have "year_ok d t (None :: year_row option) r0"
      by (rule year_ok_first [OF False ok0])
    then have "year_ok d t (None :: year_row option) ?r"
      unfolding snd_add_present_value
      using year_ok_extend [of d t _ None r0] by simp
    then show ?thesis
      by (rule year_ok_first [OF False])
  qed
  have "VP_Factor ?r = F t" "Valor_Presente_FCF ?r = fmul (FCF ?r) (VP_Factor ?r)"
    by (simp_all add: snd_add_present_value extend_present_value extend_selectors)
  with final ok show ?thesis
    unfolding L_def F_def by blast
qed

subsection \<open>The example workbook, projected\<close>

lemma upt_1_6: "[1 ..< 6] = [1, 2, 3, 4, 5 :: nat]"
  by code_simp

lemma example_year_loop:
  "year_loop 2026 (example_data w g) [1 ..< 6] [] = Inr example_rows"
  unfolding upt_1_6
  by (simp add: year_step_def iloc_def list_get_def loc_def get_prev_ingreso_def
      example_data_def example_rows_def example_row_2030_def cc_Blank cc_Num cc_examples percent_rule_def fsub_def
      power_divide Let_def cong: ebind_weak_cong let_weak_cong)
lemma discount_factors_eval:
  assumes "\<forall>i \<in> set is. fpow (fadd (Fin 1) wacc) i \<noteq> Fin 0"
  shows "discount_factors wacc is = Inr (map (\<lambda>i. fdiv (Fin 1) (fpow (fadd (Fin 1) wacc) i)) is)"
  using assms by (induction "is") (simp_all add: py_truediv_def)

lemma example_model_data:
  "data (init (Some (example_wb a b))) =
     Some (example_data (clean_and_convert a True) (clean_and_convert b True))"
  by (simp add: init_def example_loaded)

lemma calculate_projection_eval:
  assumes "data m = Some d"
    and "year_loop (start_year m) d [1 ..< years m + 1] [] = Inr df"
    and "\<forall>i \<in> set [1 ..< years m + 1]. fpow (fadd (Fin 1) (WACC (base d))) i \<noteq> Fin 0"
  shows "calculate_projection m =
           Inr (True, m\<lparr>proyeccion := map2 add_present_value df
                  (map (\<lambda>i. fdiv (Fin 1) (fpow (fadd (Fin 1) (WACC (base d))) i))
                     [1 ..< years m + 1])\<rparr>)"
  unfolding calculate_projection_def
  by (simp only: assms(1,2) discount_factors_eval [OF assms(3)] option.case ebind_Inr)

lemma example_projection:
  assumes "clean_and_convert a True = Fin w" and "0 \<le> w"
  shows "calculate_projection (init (Some (example_wb a b))) =
           Inr (True, projected_model (example_wb a b))"
proof -
  let ?m = "init (Some (example_wb a b))"
  let ?d = "example_data (clean_and_convert a True) (clean_and_convert b True)"
  have st: "start_year ?m = 2026" and ys: "years ?m + 1 = 6"
    by (simp_all add: init_def)
  have loop: "year_loop (start_year ?m) ?d [1 ..< years ?m + 1] [] = Inr example_rows"
    unfolding st ys by (rule example_year_loop)
  have "WACC (base ?d) = Fin w"
    by (simp add: example_data_def assms(1))
  then have nz: "\<forall>i \<in> set [1 ..< years ?m + 1]. fpow (fadd (Fin 1) (WACC (base ?d))) i \<noteq> Fin 0"
    using assms(2) by simp
  show ?thesis
    unfolding projected_model_def
    by (simp add: calculate_projection_eval [OF example_model_data loop nz])
qed

text \<open>
  Claim C6. In a computed projection, for every forecast year \<open>t\<close> from 1 to the
  horizon, the row of the year holds the working-capital level
  (receivables days / 365 times total revenue) + (inventory days / 365 times cost of
  sales) - (payables days / 365 times cost of sales), and its delta is the level itself
  for \<open>t = 1\<close> and the level minus the level stored for the year before otherwise.
\<close>

theorem working_capital_recursion:
  assumes "calculate_projection m = Inr (True, m')" and "data m = Some d"
    and "1 \<le> t" and "t \<le> years m"
  shows "\<exists>r cost. map_of (proyeccion m') (start_year m + int t - 1) = Some r \<and>
           costo_venta (proyecciones d) t r = Some cost \<and>
           Capital_de_Trabajo r =
             fsub (fadd (fmul (fdiv (Dias_CxC (base d)) (Fin 365)) (Ingresos_Totales r))
                        (fmul (fdiv (Dias_Inv (base d)) (Fin 365)) cost))
                  (fmul (fdiv (Dias_CxP (base d)) (Fin 365)) cost) \<and>
           (if t = 1 then Delta_CTN r = Capital_de_Trabajo r
            else \<exists>rp. map_of (proyeccion m') (start_year m + int t - 2) = Some rp \<and>
                   Delta_CTN r = fsub (Capital_de_Trabajo r) (Capital_de_Trabajo rp))"
proof -
  from calculate_projection_rows [OF assms] obtain r where
    r: "map_of (proyeccion m') (start_year m + int t - 1) = Some r" and
    ok: "year_ok d t (map_of (proyeccion m') (start_year m + int t - 2)) r"
    by blast
  from ok obtain cost ckp where
    cost: "costo_venta (proyecciones d) t r = Some cost" and
    level: "Capital_de_Trabajo r =
             fsub (fadd (fmul (fdiv (Dias_CxC (base d)) (Fin 365)) (Ingresos_Totales r))
                        (fmul (fdiv (Dias_Inv (base d)) (Fin 365)) cost))
                  (fmul (fdiv (Dias_CxP (base d)) (Fin 365)) cost)" and
    ckp: "(if 1 < t then map_option Capital_de_Trabajo
             (map_of (proyeccion m') (start_year m + int t - 2)) else Some (Fin 0)) = Some ckp" and
    delta: "Delta_CTN r = fsub (Capital_de_Trabajo r) ckp"
    unfolding year_ok_def by blast
  have "if t = 1 then Delta_CTN r = Capital_de_Trabajo r
        else \<exists>rp. map_of (proyeccion m') (start_year m + int t - 2) = Some rp \<and>
               Delta_CTN r = fsub (Capital_de_Trabajo r) (Capital_de_Trabajo rp)"
  proof (cases "t = 1")
    case True
    with ckp have "ckp = Fin 0" by simp
    with delta True show ?thesis by (simp add: fsub_zero_right)
  next
    case False
    with assms(3) have "1 < t" by simp
    with ckp delta False show ?thesis by auto
  qed
  with r cost level show ?thesis by blast
qed

theorem working_capital_recursion_witness:
  "\<exists>r cost. map_of (proyeccion (projected_model (example_wb (Str ''20%'') (Num 0.03)))) 2027 = Some r \<and>
     costo_venta (proyecciones (example_data (Fin 0.2) (Fin 0.03))) 2 r = Some cost \<and>
     Capital_de_Trabajo r =
       fsub (fadd (fmul (fdiv (Fin 30) (Fin 365)) (Ingresos_Totales r))
                  (fmul (fdiv (Fin 45) (Fin 365)) cost))
            (fmul (fdiv (Fin 60) (Fin 365)) cost) \<and>
     (\<exists>rp. map_of (proyeccion (projected_model (example_wb (Str ''20%'') (Num 0.03)))) 2026 = Some rp \<and>
        Delta_CTN r = fsub (Capital_de_Trabajo r) (Capital_de_Trabajo rp))"
proof -
  have run: "calculate_projection (init (Some (example_wb (Str ''20%'') (Num 0.03)))) =
               Inr (True, projected_model (example_wb (Str ''20%'') (Num 0.03)))"
    by (rule example_projection [OF example_rates(1)]) simp
  have d: "data (init (Some (example_wb (Str ''20%'') (Num 0.03)))) =
             Some (example_data (Fin 0.2) (Fin 0.03))"
    by (simp only: example_model_data example_rates)
  have t: "1 \<le> (2 :: nat)" "2 \<le> years (init (Some (example_wb (Str ''20%'') (Num 0.03))))"
    by (simp_all add: init_def)
  show ?thesis
    using working_capital_recursion [OF run d t]
    by (simp add: init_def example_data_def)
qed
text \<open>
  Claim C7. In a computed projection, for every forecast year \<open>t\<close> from 1 to the
  horizon and each of the three revenue streams, the level stored for the year is the
  prior level times (1 + the year's growth rate of the stream), the prior level being
  the level stored for the year before, or the base-year cell of the stream when
  \<open>t = 1\<close>. The cost of sales that enters the year's EBIT is the sum over the three
  streams of the level times the year's cost ratio of the stream.
\<close>

theorem revenue_stream_recursion:
  assumes "calculate_projection m = Inr (True, m')" and "data m = Some d"
    and "1 \<le> t" and "t \<le> years m"
  shows "\<exists>r. map_of (proyeccion m') (start_year m + int t - 1) = Some r \<and>
           (\<exists>g p. cell_value (proyecciones d) 2 t True = Some g \<and>
              prior_level (proyecciones d) t 1
                (map_of (proyeccion m') (start_year m + int t - 2)) Ingresos_B1 = Some p \<and>
              Ingresos_B1 r = fmul p (fadd (Fin 1) g)) \<and>
           (\<exists>g p. cell_value (proyecciones d) 6 t True = Some g \<and>
              prior_level (proyecciones d) t 5
                (map_of (proyeccion m') (start_year m + int t - 2)) Ingresos_B2 = Some p \<and>
              Ingresos_B2 r = fmul p (fadd (Fin 1) g)) \<and>
           (\<exists>g p. cell_value (proyecciones d) 10 t True = Some g \<and>
              prior_level (proyecciones d) t 9
                (map_of (proyeccion m') (start_year m + int t - 2)) Ingresos_G = Some p \<and>
              Ingresos_G r = fmul p (fadd (Fin 1) g)) \<and>
           (\<exists>cv1 cv2 cvG gv ga.
              cell_value (proyecciones d) 3 t True = Some cv1 \<and>
              cell_value (proyecciones d) 7 t True = Some cv2 \<and>
              cell_value (proyecciones d) 11 t True = Some cvG \<and>
              cell_value (proyecciones d) 13 t True = Some gv \<and>
              list_get (gastos_ahorros_operativos (proyectos d)) (t - 1) = Inr ga \<and>
              EBIT r =
                fadd (fsub (fsub (fsub (Ingresos_Totales r)
                    (fadd (fadd (fmul (Ingresos_B1 r) cv1) (fmul (Ingresos_B2 r) cv2))
                       (fmul (Ingresos_G r) cvG)))
                    (fmul (Gastos_Fijos_Operativos_2025 (base d)) (Fin (1.03 ^ t))))
                    (fmul (fadd (fadd (Ingresos_B1 r) (Ingresos_B2 r)) (Ingresos_G r)) gv)) ga)"
proof -
  from calculate_projection_rows [OF assms] obtain r where
    r: "map_of (proyeccion m') (start_year m + int t - 1) = Some r" and
    ok: "year_ok d t (map_of (proyeccion m') (start_year m + int t - 2)) r"
    by blast
  let ?prev = "map_of (proyeccion m') (start_year m + int t - 2)"
  from ok obtain g1 g2 gG p1 p2 pG cost gv ga where
    g: "cell_value (proyecciones d) 2 t True = Some g1"
       "cell_value (proyecciones d) 6 t True = Some g2"
       "cell_value (proyecciones d) 10 t True = Some gG" and
    p: "prior_level (proyecciones d) t 1 ?prev Ingresos_B1 = Some p1"
       "prior_level (proyecciones d) t 5 ?prev Ingresos_B2 = Some p2"
       "prior_level (proyecciones d) t 9 ?prev Ingresos_G = Some pG" and
    lv: "Ingresos_B1 r = fmul p1 (fadd (Fin 1) g1)"
        "Ingresos_B2 r = fmul p2 (fadd (Fin 1) g2)"
        "Ingresos_G r = fmul pG (fadd (Fin 1) gG)" and
    cost: "costo_venta (proyecciones d) t r = Some cost" and
    gv: "cell_value (proyecciones d) 13 t True = Some gv" and
    ga: "list_get (gastos_ahorros_operativos (proyectos d)) (t - 1) = Inr ga" and
    ebit: "EBIT r =
          fadd (fsub (fsub (fsub (Ingresos_Totales r) cost)
                  (fmul (Gastos_Fijos_Operativos_2025 (base d)) (Fin (1.03 ^ t))))
                  (fmul (fadd (fadd (Ingresos_B1 r) (Ingresos_B2 r)) (Ingresos_G r)) gv)) ga"
    unfolding year_ok_def by blast
  from cost obtain cv1 cv2 cvG where
    cv: "cell_value (proyecciones d) 3 t True = Some cv1"
        "cell_value (proyecciones d) 7 t True = Some cv2"
        "cell_value (proyecciones d) 11 t True = Some cvG" and
    sum: "cost = fadd (fadd (fmul (Ingresos_B1 r) cv1) (fmul (Ingresos_B2 r) cv2))
                   (fmul (Ingresos_G r) cvG)"
    by (auto simp: costo_venta_def fadd_zero_left split: option.splits)
  from r g p lv cv gv ga ebit [unfolded sum] show ?thesis by blast
qed

theorem revenue_stream_recursion_witness:
  "\<exists>r. map_of (proyeccion (projected_model (example_wb (Str ''20%'') (Num 0.03))))
          (start_year (init (Some (example_wb (Str ''20%'') (Num 0.03)))) + int 2 - 1) = Some r \<and>
     (\<exists>g p. cell_value (proyecciones (example_data (Fin 0.2) (Fin 0.03))) 2 2 True = Some g \<and>
        prior_level (proyecciones (example_data (Fin 0.2) (Fin 0.03))) 2 1
          (map_of (proyeccion (projected_model (example_wb (Str ''20%'') (Num 0.03))))
             (start_year (init (Some (example_wb (Str ''20%'') (Num 0.03)))) + int 2 - 2))
          Ingresos_B1 = Some p \<and>
        Ingresos_B1 r = fmul p (fadd (Fin 1) g)) \<and>
     (\<exists>g p. cell_value (proyecciones (example_data (Fin 0.2) (Fin 0.03))) 6 2 True = Some g \<and>
        prior_level (proyecciones (example_data (Fin 0.2) (Fin 0.03))) 2 5
          (map_of (proyeccion (projected_model (example_wb (Str ''20%'') (Num 0.03))))
             (start_year (init (Some (example_wb (Str ''20%'') (Num 0.03)))) + int 2 - 2))
          Ingresos_B2 = Some p \<and>
        Ingresos_B2 r = fmul p (fadd (Fin 1) g)) \<and>
     (\<exists>g p. cell_value (proyecciones (example_data (Fin 0.2) (Fin 0.03))) 10 2 True = Some g \<and>
        prior_level (proyecciones (example_data (Fin 0.2) (Fin 0.03))) 2 9
          (map_of (proyeccion (projected_model (example_wb (Str ''20%'') (Num 0.03))))
             (start_year (init (Some (example_wb (Str ''20%'') (Num 0.03)))) + int 2 - 2))
          Ingresos_G = Some p \<and>
        Ingresos_G r = fmul p (fadd (Fin 1) g)) \<and>
     (\<exists>cv1 cv2 cvG gv ga.
        cell_value (proyecciones (example_data (Fin 0.2) (Fin 0.03))) 3 2 True = Some cv1 \<and>
        cell_value (proyecciones (example_data (Fin 0.2) (Fin 0.03))) 7 2 True = Some cv2 \<and>
        cell_value (proyecciones (example_data (Fin 0.2) (Fin 0.03))) 11 2 True = Some cvG \<and>
        cell_value (proyecciones (example_data (Fin 0.2) (Fin 0.03))) 13 2 True = Some gv \<and>
        list_get (gastos_ahorros_operativos (proyectos (example_data (Fin 0.2) (Fin 0.03))))
          (2 - 1) = Inr ga \<and>
        EBIT r =
          fadd (fsub (fsub (fsub (Ingresos_Totales r)
              (fadd (fadd (fmul (Ingresos_B1 r) cv1) (fmul (Ingresos_B2 r) cv2))
                 (fmul (Ingresos_G r) cvG)))
              (fmul (Gastos_Fijos_Operativos_2025 (base (example_data (Fin 0.2) (Fin 0.03))))
                 (Fin (1.03 ^ 2))))
              (fmul (fadd (fadd (Ingresos_B1 r) (Ingresos_B2 r)) (Ingresos_G r)) gv)) ga)"
proof -
  have run: "calculate_projection (init (Some (example_wb (Str ''20%'') (Num 0.03)))) =
               Inr (True, projected_model (example_wb (Str ''20%'') (Num 0.03)))"
    by (rule example_projection [OF example_rates(1)]) simp
  have d: "data (init (Some (example_wb (Str ''20%'') (Num 0.03)))) =
             Some (example_data (Fin 0.2) (Fin 0.03))"
    by (simp only: example_model_data example_rates)
  have t: "1 \<le> (2 :: nat)" "2 \<le> years (init (Some (example_wb (Str ''20%'') (Num 0.03))))"
    by (simp_all add: init_def)
  show ?thesis
    by (rule revenue_stream_recursion [OF run d t])
qed

text \<open>
  Claim C8. In a computed projection, for every forecast year \<open>t\<close> from 1 to the
  horizon, the fixed operating expenses subtracted in the year's EBIT are the base-year
  figure times \<open>1.03 ^ t\<close>: the rate is the same constant for every loaded bundle.
\<close>

theorem fixed_expenses_compound:
  assumes "calculate_projection m = Inr (True, m')" and "data m = Some d"
    and "1 \<le> t" and "t \<le> years m"
  shows "\<exists>r cost gv ga.
           map_of (proyeccion m') (start_year m + int t - 1) = Some r \<and>
           costo_venta (proyecciones d) t r = Some cost \<and>
           cell_value (proyecciones d) 13 t True = Some gv \<and>
           list_get (gastos_ahorros_operativos (proyectos d)) (t - 1) = Inr ga \<and>
           EBIT r =
             fadd (fsub (fsub (fsub (Ingresos_Totales r) cost)
                 (fmul (Gastos_Fijos_Operativos_2025 (base d)) (Fin (1.03 ^ t))))
                 (fmul (fadd (fadd (Ingresos_B1 r) (Ingresos_B2 r)) (Ingresos_G r)) gv)) ga"
proof -
  from calculate_projection_rows [OF assms] obtain r where
    r: "map_of (proyeccion m') (start_year m + int t - 1) = Some r" and
    ok: "year_ok d t (map_of (proyeccion m') (start_year m + int t - 2)) r"
    by blast
  from ok obtain cost gv ga where
    "costo_venta (proyecciones d) t r = Some cost"
    "cell_value (proyecciones d) 13 t True = Some gv"
    "list_get (gastos_ahorros_operativos (proyectos d)) (t - 1) = Inr ga"
    "EBIT r =
          fadd (fsub (fsub (fsub (Ingresos_Totales r) cost)
                  (fmul (Gastos_Fijos_Operativos_2025 (base d)) (Fin (1.03 ^ t))))
                  (fmul (fadd (fadd (Ingresos_B1 r) (Ingresos_B2 r)) (Ingresos_G r)) gv)) ga"
    unfolding year_ok_def by blast
  with r show ?thesis by blast
qed

theorem fixed_expenses_compound_witness:
  "\<exists>r cost gv ga.
     map_of (proyeccion (projected_model (example_wb (Str ''20%'') (Num 0.03))))
       (start_year (init (Some (example_wb (Str ''20%'') (Num 0.03)))) + int 3 - 1) = Some r \<and>
     costo_venta (proyecciones (example_data (Fin 0.2) (Fin 0.03))) 3 r = Some cost \<and>
     cell_value (proyecciones (example_data (Fin 0.2) (Fin 0.03))) 13 3 True = Some gv \<and>
     list_get (gastos_ahorros_operativos (proyectos (example_data (Fin 0.2) (Fin 0.03))))
       (3 - 1) = Inr ga \<and>
     EBIT r =
       fadd (fsub (fsub (fsub (Ingresos_Totales r) cost)
           (fmul (Gastos_Fijos_Operativos_2025 (base (example_data (Fin 0.2) (Fin 0.03))))
              (Fin (1.03 ^ 3))))
           (fmul (fadd (fadd (Ingresos_B1 r) (Ingresos_B2 r)) (Ingresos_G r)) gv)) ga"
proof -
  have run: "calculate_projection (init (Some (example_wb (Str ''20%'') (Num 0.03)))) =
               Inr (True, projected_model (example_wb (Str ''20%'') (Num 0.03)))"
    by (rule example_projection [OF example_rates(1)]) simp
  have d: "data (init (Some (example_wb (Str ''20%'') (Num 0.03)))) =
             Some (example_data (Fin 0.2) (Fin 0.03))"
    by (simp only: example_model_data example_rates)
  have t: "1 \<le> (3 :: nat)" "3 \<le> years (init (Some (example_wb (Str ''20%'') (Num 0.03))))"
    by (simp_all add: init_def)
  show ?thesis
    by (rule fixed_expenses_compound [OF run d t])
qed

section \<open>Properties of the valuation\<close>



lemma loc_same_row:
  assumes "loc df y col = Inr v"
  shows "\<exists>r. map_of df y = Some r \<and> col r = v \<and> df \<noteq> [] \<and>
             (\<forall>col'. loc df y col' = Inr (col' r))"
  using assms by (auto simp: loc_def split: option.splits)

text \<open>
  The valuation step on a model that holds the row of the last forecast year: it returns
  \<open>True\<close> and stores the summary computed from that row, whatever the two rates are.
\<close>

lemma calculate_valuation_eval:
  assumes "data m = Some d" and "map_of (proyeccion m) (last_year_label m) = Some r"
  shows "calculate_valuation m =
     Inr (True, m\<lparr>valoracion := Some
       \<lparr>VE_FCF_Proyectados = pd_sum (map (\<lambda>yr. Valor_Presente_FCF (snd yr)) (proyeccion m)),
        Valor_Terminal =
          fdiv (fmul (FCF r) (fadd (Fin 1) (G_Perpetuidad (base d))))
               (fsub (WACC (base d)) (G_Perpetuidad (base d))),
        VP_Valor_Terminal =
          fmul (fdiv (fmul (FCF r) (fadd (Fin 1) (G_Perpetuidad (base d))))
                     (fsub (WACC (base d)) (G_Perpetuidad (base d)))) (VP_Factor r),
        Valor_Empresa_VE =
          fadd (pd_sum (map (\<lambda>yr. Valor_Presente_FCF (snd yr)) (proyeccion m)))
               (fmul (fdiv (fmul (FCF r) (fadd (Fin 1) (G_Perpetuidad (base d))))
                           (fsub (WACC (base d)) (G_Perpetuidad (base d)))) (VP_Factor r)),
        val_WACC = WACC (base d),
        val_G_Perpetuidad = G_Perpetuidad (base d),
        val_Tasa_ISR = Tasa_ISR (base d)\<rparr>\<rparr>)"
proof -
  from assms(2) have "proyeccion m \<noteq> []" by auto
  with assms show ?thesis
    by (simp add: calculate_valuation_def loc_def last_year_label_def Let_def)
qed

text \<open>
  Claim C1, as the code has it. The valuation step has no guard on the two rates. On a
  model that holds the last forecast year's row, with finite rates \<open>wacc \<le> growth\<close> and
  a finite last free cash flow, \<open>_calculate_valuation\<close> returns \<open>True\<close>, not an error,
  and the terminal value it stores is the result of the Gordon division: the quotient
  \<open>fcf * (1 + growth) / (wacc - growth)\<close> when \<open>wacc < growth\<close>, and for equal rates the
  result of numpy's division by zero (plus or minus infinity by the sign of the
  dividend, NaN when it is zero).
\<close>

theorem calculate_valuation_no_guard:
  assumes "loaded_rates m = Some (Fin w, Fin g)" and "w \<le> g"
    and "loc (proyeccion m) (last_year_label m) FCF = Inr (Fin f)"
  shows "\<exists>v. calculate_valuation m = Inr (True, m\<lparr>valoracion := Some v\<rparr>) \<and>
             Valor_Terminal v =
               (if w < g then Fin (f * (1 + g) / (w - g))
                else if 0 < f * (1 + g) then PInf
                else if f * (1 + g) < 0 then NInf
                else NaN)"
proof -
  from assms(1) obtain d where d: "data m = Some d"
    and rates: "WACC (base d) = Fin w" "G_Perpetuidad (base d) = Fin g"
    by (auto simp: loaded_rates_def)
  from loc_same_row [OF assms(3)] obtain r where
    r: "map_of (proyeccion m) (last_year_label m) = Some r" and f: "FCF r = Fin f"
    by blast
  have tv: "fdiv (fmul (FCF r) (fadd (Fin 1) (G_Perpetuidad (base d))))
             (fsub (WACC (base d)) (G_Perpetuidad (base d))) =
          (if w < g then Fin (f * (1 + g) / (w - g))
           else if 0 < f * (1 + g) then PInf
           else if f * (1 + g) < 0 then NInf
           else NaN)"
    using assms(2) by (simp add: rates f fsub_def inf_of_sign_def)
  show ?thesis
    unfolding calculate_valuation_eval [OF d r]
    apply (intro exI conjI)
     apply (rule refl)
    apply (simp add: tv)
    done
qed

subsection \<open>The example workbook, valued\<close>

lemma example_projected:
  assumes "clean_and_convert a True = Fin w" and "0 \<le> w"
  shows "projected_model (example_wb a b) =
           (init (Some (example_wb a b)))\<lparr>proyeccion :=
              map2 add_present_value example_rows
                (map (\<lambda>i. Fin (1 / (1 + w) ^ i)) [1, 2, 3, 4, 5])\<rparr>"
proof -
  let ?m = "init (Some (example_wb a b))"
  let ?d = "example_data (clean_and_convert a True) (clean_and_convert b True)"
  have st: "start_year ?m = 2026" and ys: "years ?m + 1 = 6"
    by (simp_all add: init_def)
  have loop: "year_loop (start_year ?m) ?d [1 ..< years ?m + 1] [] = Inr example_rows"
    unfolding st ys by (rule example_year_loop)
  have w: "WACC (base ?d) = Fin w"
    by (simp add: example_data_def assms(1))
  have p1: "1 + w \<noteq> 0"
    using assms(2) by linarith
  then have pos: "(1 + w) ^ i \<noteq> 0" for i :: nat
    by simp
  then have nz: "\<forall>i \<in> set [1 ..< years ?m + 1]. fpow (fadd (Fin 1) (WACC (base ?d))) i \<noteq> Fin 0"
    unfolding w by simp
  have fs: "map (\<lambda>i. fdiv (Fin 1) (fpow (fadd (Fin 1) (WACC (base ?d))) i)) [1 ..< years ?m + 1] =
            map (\<lambda>i. Fin (1 / (1 + w) ^ i)) [1, 2, 3, 4, 5]"
    unfolding w ys upt_1_6 by (simp add: p1)
  show ?thesis
    unfolding projected_model_def calculate_projection_eval [OF example_model_data loop nz] fs
    by simp
qed

lemma projected_model_fields:
  "data (projected_model xl) = data (init (Some xl))"
  "start_year (projected_model xl) = 2026"
  "years (projected_model xl) = 5"
  by (auto simp: projected_model_def calculate_projection_def init_def ebind_def
      split: sum.splits option.splits)

lemma example_last_year:
  assumes "clean_and_convert a True = Fin w" and "0 \<le> w"
  shows "map_of (proyeccion (projected_model (example_wb a b)))
           (last_year_label (projected_model (example_wb a b))) =
         Some (year_row.extend
           \<lparr>Ingresos_B1 = Fin (30705948 / 25), Ingresos_B2 = Fin 966306, Ingresos_G = Fin 400000,
            Ingresos_Totales = Fin (67113598 / 25), EBIT = Fin (21923293257 / 25000),
            Depreciacion = Fin (39931799 / 250), NOPAT = Fin (153463052799 / 250000),
            Capital_de_Trabajo = Fin (1602989877 / 9125), Delta_CTN = Fin (70877727 / 9125),
            CapEx_Total = Fin (64863598 / 625), FCF = Fin (12082051665727 / 18250000)\<rparr>
           (row.fields (Fin (1 / (1 + w) ^ 5))
              (Fin (12082051665727 / 18250000 * (1 / (1 + w) ^ 5)))))"
  unfolding last_year_label_def projected_model_fields
  by (simp add: example_projected [OF assms] example_rows_def example_row_2030_def add_present_value_def)


lemma run_model_eval:
  assumes "data m \<noteq> None" and "calculate_projection m = Inr (True, m1)"
  shows "run_model m = calculate_valuation m1"
  using assms by (cases "data m") (simp_all add: run_model_def)

text \<open>
  Claim C1, as stated, fails. The example workbook with discount rate and growth rate
  both 10% loads, and the run returns \<open>True\<close> with the terminal value plus infinity,
  the result of the division by zero; with discount rate 5% below the growth rate 10%
  the run returns \<open>True\<close> with a negative quotient as terminal value. Neither is an
  error.
\<close>

theorem equal_rates_evaluate_division:
  "terminal_value_of (run_model (init (Some (example_wb (Str ''10%'') (Str ''10%''))))) =
     Inr (True, Some PInf) \<and>
   terminal_value_of (run_model (init (Some (example_wb (Str ''5%'') (Str ''10%''))))) =
     Inr (True, Some (Fin (- (132902568322997 / 9125000))))"
proof -
  have eval: "terminal_value_of (run_model (init (Some (example_wb a b)))) =
      Inr (True, Some (fdiv (fmul (Fin (12082051665727 / 18250000)) (fadd (Fin 1) (Fin g)))
                            (fsub (Fin w) (Fin g))))"
    if a: "clean_and_convert a True = Fin w" and b: "clean_and_convert b True = Fin g"
      and w: "0 \<le> w" for a b w g
  proof -
    have d: "data (projected_model (example_wb a b)) = Some (example_data (Fin w) (Fin g))"
      by (simp add: projected_model_fields example_model_data a b)
    have "run_model (init (Some (example_wb a b))) =
            calculate_valuation (projected_model (example_wb a b))"
      by (rule run_model_eval [OF _ example_projection [OF a w]])
         (simp add: example_model_data)
    then show ?thesis
      unfolding calculate_valuation_eval [OF d example_last_year [OF a w]]
      by (simp add: terminal_value_of_def get_valuation_summary_def example_data_def
          extend_present_value extend_selectors)
  qed
  have "terminal_value_of (run_model (init (Some (example_wb (Str ''10%'') (Str ''10%''))))) =
          Inr (True, Some PInf)"
    unfolding eval [OF example_rates(3) example_rates(3), simplified]
    by (simp add: fsub_def inf_of_sign_def)
  moreover
  have "terminal_value_of (run_model (init (Some (example_wb (Str ''5%'') (Str ''10%''))))) =
          Inr (True, Some (Fin (- (132902568322997 / 9125000))))"
    unfolding eval [OF example_rates(4) example_rates(3), simplified]
    by (simp add: fsub_def)
  ultimately show ?thesis by blast
qed

theorem calculate_valuation_no_guard_witness:
  "\<exists>v. calculate_valuation (projected_model (example_wb (Str ''5%'') (Str ''10%''))) =
          Inr (True, (projected_model (example_wb (Str ''5%'') (Str ''10%'')))\<lparr>valoracion := Some v\<rparr>) \<and>
        Valor_Terminal v = Fin (- (132902568322997 / 9125000))"
proof -
  have w: "(0 :: real) \<le> 0.05" by simp
  have rates: "loaded_rates (projected_model (example_wb (Str ''5%'') (Str ''10%''))) =
                 Some (Fin 0.05, Fin 0.1)"
    by (simp add: loaded_rates_def projected_model_fields example_model_data example_rates
        example_data_def cc_Num percent_rule_def)
  have le: "(0.05 :: real) \<le> 0.1" by simp
  have fcf: "loc (proyeccion (projected_model (example_wb (Str ''5%'') (Str ''10%'')))) 
                (last_year_label (projected_model (example_wb (Str ''5%'') (Str ''10%'')))) FCF =
              Inr (Fin (12082051665727 / 18250000))"
    unfolding loc_def example_last_year [OF example_rates(4) w]
    by (simp add: extend_present_value extend_selectors)
  show ?thesis
    using calculate_valuation_no_guard [OF rates le fcf] by simp
qed


end
